theory Spec2Isabelle
  imports Complex_Main "HOL-Library.Word" "HOL-Library.Log_Nat"
begin

section \<open>Numeric model\<close>

text \<open>
  The players keep the playback cursor, the loop bounds and the advance per sample in C++
  \<^verbatim>\<open>double\<close>s and the volume in a \<^verbatim>\<open>float\<close>. They are modelled as exact reals: comparisons,
  branch structure and arithmetic are those of the source, and rounding is not modelled, with
  one exception: \<open>wrapPosition_binary64\<close> below rounds the one inexact operation of
  \<^verbatim>\<open>wrapPosition\<close> as binary64 does, and the range of \<^verbatim>\<open>wrapPosition\<close> is settled on it.
  Bytes of the file are \<^verbatim>\<open>unsigned char\<close>, modelled as 8-bit words; \<^verbatim>\<open>size_t\<close> indices and
  frame counts are naturals.
\<close>

type_synonym byte = "8 word"

text \<open>Truncation toward zero, as \<^verbatim>\<open>std::fmod\<close> and the conversion to \<^verbatim>\<open>size_t\<close> use it.\<close>

definition trunc :: "real \<Rightarrow> int" where
  "trunc r = (if r < 0 then - \<lfloor>- r\<rfloor> else \<lfloor>r\<rfloor>)"

text \<open>
  \<^verbatim>\<open>std::fmod(x, y)\<close>: \<open>x - n * y\<close> with \<open>n\<close> the quotient \<open>x / y\<close> truncated toward zero, so
  the result has the sign of \<open>x\<close>. Every call in the source passes the file size, which is
  positive for a loaded file.
\<close>

definition fmod :: "real \<Rightarrow> real \<Rightarrow> real" where
  "fmod x y = x - of_int (trunc (x / y)) * y"

text \<open>
  Rounding of a real to IEEE 754 binary64, to nearest with ties to even: the quotient by the
  unit in the last place is rounded to an integer. \<open>binary_exponent x\<close> is \<open>floor(log2 |x|)\<close>,
  computed from the bit length of the integer part (or of the reciprocal below 1); the
  exponent of a subnormal is held at \<open>-1022\<close>. Overflow to infinity is not modelled: the sums
  rounded here are bounded by the file size.
\<close>

definition round_half_even :: "real \<Rightarrow> int" where
  "round_half_even q =
     (let f = \<lfloor>q\<rfloor>; d = q - of_int f in
      if d < 1 / 2 then f
      else if d > 1 / 2 then f + 1
      else if even f then f else f + 1)"

definition binary_exponent :: "real \<Rightarrow> int" where
  "binary_exponent x =
     (if \<bar>x\<bar> \<ge> 1 then int (floorlog 2 (nat \<lfloor>\<bar>x\<bar>\<rfloor>)) - 1
      else - int (floorlog 2 (nat \<lceil>1 / \<bar>x\<bar>\<rceil> - 1)))"

definition round_binary64 :: "real \<Rightarrow> real" where
  "round_binary64 x =
     (if x = 0 then 0
      else let e = max (binary_exponent x) (- 1022);
               ulp = 2 powi (e - 52)
           in ulp * of_int (round_half_even (x / ulp)))"

datatype fault = UndefinedConversion | OutOfBounds | DivisionByZero

text \<open>
  \<^verbatim>\<open>static_cast<size_t>(double)\<close> discards the fractional part; the behaviour is undefined
  when the truncated value is not representable in the 64-bit \<^verbatim>\<open>size_t\<close>.
\<close>

definition to_size_t :: "real \<Rightarrow> fault + nat" where
  "to_size_t x = (if - 1 < x \<and> x < 2 ^ 64 then Inr (nat (trunc x)) else Inl UndefinedConversion)"

text \<open>\<open>n - 1\<close> in the unsigned 64-bit \<^verbatim>\<open>size_t\<close>: zero wraps around.\<close>

definition size_t_pred :: "nat \<Rightarrow> nat" where
  "size_t_pred n = (if n = 0 then 2 ^ 64 - 1 else n - 1)"

text \<open>\<^verbatim>\<open>fileData[index]\<close> on the \<^verbatim>\<open>std::vector\<close>: a read past the end is a fault.\<close>

definition vector_read :: "byte list \<Rightarrow> nat \<Rightarrow> fault + byte" where
  "vector_read v i = (if i < length v then Inr (v ! i) else Inl OutOfBounds)"

section \<open>Program state\<close>

text \<open>
  The file-scope variables shared by \<^verbatim>\<open>OpenBinaryWaterFall.cpp\<close> and
  \<^verbatim>\<open>burn/OPENBinarywaterFALL.cpp\<close>; \<open>windowShouldClose\<close> stands for the GLFW close flag that
  the Escape key sets.
\<close>

record player =
  isPaused :: bool
  isFullscreen :: bool
  isAudioEnabled :: bool
  audioVolume :: real
  audioPosition :: real
  loopEnabled :: bool
  boomerangMode :: bool
  loopStart :: real
  loopEnd :: real
  windowShouldClose :: bool

text \<open>\<^verbatim>\<open>OpenBinaryWaterFall.cpp\<close>: the rate is a \<^verbatim>\<open>double\<close> multiplier of the baseline frame rate.\<close>

record main_player = player +
  playbackMultiplier :: real
  windowScale :: int

text \<open>\<^verbatim>\<open>burn/OPENBinarywaterFALL.cpp\<close>: the rate is an \<^verbatim>\<open>int\<close> frequency, kept within
  \<open>\<plusminus>1000000\<close> by every command that changes it, so its negation never overflows.\<close>

record burn_player = player +
  playbackFrequency :: int

text \<open>The loaded file: \<^verbatim>\<open>fileData\<close> and \<^verbatim>\<open>totalFrames\<close>, both fixed by \<^verbatim>\<open>loadMediaFile\<close>.\<close>

record media =
  fileData :: "byte list"
  totalFrames :: nat

definition FRAME_WIDTH :: nat where "FRAME_WIDTH = 64"
definition FRAME_HEIGHT :: nat where "FRAME_HEIGHT = 128"
definition BASE_FRAME_RATE :: nat where "BASE_FRAME_RATE = 24"

definition burn_FRAME_WIDTH :: nat where "burn_FRAME_WIDTH = 455"
definition burn_FRAME_HEIGHT :: nat where "burn_FRAME_HEIGHT = 256"
definition DEFAULT_FREQUENCY :: int where "DEFAULT_FREQUENCY = 24"

section \<open>Loading\<close>

datatype load_error = CouldNotOpen | FileEmpty | FileTooSmall | ReadFailed

text \<open>
  \<^verbatim>\<open>loadMediaFile\<close>, with the file system reduced to what the function observes: whether
  the file opens, its bytes, and whether reading them succeeds. The first argument is the
  number of bytes per frame of the variant.
\<close>

datatype disk_file = Missing | Contents "byte list" bool

fun loadMediaFile_with :: "nat \<Rightarrow> disk_file \<Rightarrow> load_error + media" where
  "loadMediaFile_with bytesPerFrame Missing = Inl CouldNotOpen"
| "loadMediaFile_with bytesPerFrame (Contents bytes readable) =
     (let fileSize = length bytes in
      if fileSize \<le> 0 then Inl FileEmpty
      else let frames = fileSize div bytesPerFrame in
        if frames = 0 then Inl FileTooSmall
        else if \<not> readable then Inl ReadFailed
        else Inr \<lparr>fileData = bytes, totalFrames = frames\<rparr>)"

definition loadMediaFile :: "disk_file \<Rightarrow> load_error + media" where
  "loadMediaFile = loadMediaFile_with (FRAME_WIDTH * FRAME_HEIGHT)"

definition burn_loadMediaFile :: "disk_file \<Rightarrow> load_error + media" where
  "burn_loadMediaFile = loadMediaFile_with (burn_FRAME_WIDTH * burn_FRAME_HEIGHT)"

section \<open>Position wrap and loop handling\<close>

text \<open>\<^verbatim>\<open>wrapPosition\<close>, identical in both files, read in exact arithmetic.\<close>

definition wrapPosition :: "real \<Rightarrow> real \<Rightarrow> real" where
  "wrapPosition pos fileSize =
     (if pos < 0 then
        (let pos1 = fmod pos fileSize in
         if pos1 < 0 then pos1 + fileSize else pos1)
      else if pos \<ge> fileSize then fmod pos fileSize
      else pos)"

text \<open>
  \<^verbatim>\<open>wrapPosition\<close> in the binary64 arithmetic of the source, for arguments that are binary64
  values. The comparisons are exact and \<^verbatim>\<open>std::fmod\<close> is exact (its result is always
  representable); \<^verbatim>\<open>pos += fileSize\<close> is the one operation that rounds.
\<close>

definition wrapPosition_binary64 :: "real \<Rightarrow> real \<Rightarrow> real" where
  "wrapPosition_binary64 pos fileSize =
     (if pos < 0 then
        (let pos1 = fmod pos fileSize in
         if pos1 < 0 then round_binary64 (pos1 + fileSize) else pos1)
      else if pos \<ge> fileSize then fmod pos fileSize
      else pos)"

text \<open>\<^verbatim>\<open>handleLoop\<close> of \<^verbatim>\<open>OpenBinaryWaterFall.cpp\<close>.\<close>

definition handleLoop :: "real \<Rightarrow> real \<Rightarrow> main_player \<Rightarrow> main_player" where
  "handleLoop fileSize advance s =
     (if \<not> loopEnabled s then s\<lparr>audioPosition := wrapPosition (audioPosition s) fileSize\<rparr>
      else
        let forward = (advance > 0) in
        if loopStart s = loopEnd s then s\<lparr>audioPosition := loopStart s\<rparr>
        else if loopStart s < loopEnd s then
          (if forward \<and> audioPosition s > loopEnd s then
             (if boomerangMode s then
                let overshoot = audioPosition s - loopEnd s in
                s\<lparr>audioPosition := loopEnd s - overshoot,
                  playbackMultiplier := - playbackMultiplier s\<rparr>
              else s\<lparr>audioPosition := loopStart s\<rparr>)
           else if \<not> forward \<and> audioPosition s < loopStart s then
             (if boomerangMode s then
                let overshoot = loopStart s - audioPosition s in
                s\<lparr>audioPosition := loopStart s + overshoot,
                  playbackMultiplier := - playbackMultiplier s\<rparr>
              else s\<lparr>audioPosition := loopEnd s\<rparr>)
           else s)
        else
          let s1 = s\<lparr>audioPosition := wrapPosition (audioPosition s) fileSize\<rparr> in
          if forward \<and> audioPosition s1 > loopEnd s1 \<and> audioPosition s1 < loopStart s1 then
            (if boomerangMode s1 then
               let overshoot = audioPosition s1 - loopEnd s1 in
               s1\<lparr>audioPosition := loopEnd s1 - overshoot,
                  playbackMultiplier := - playbackMultiplier s1\<rparr>
             else s1\<lparr>audioPosition := loopStart s1\<rparr>)
          else if \<not> forward \<and> (audioPosition s1 < loopEnd s1 \<or> audioPosition s1 > loopStart s1) then
            (if boomerangMode s1 then
               let overshoot = (if audioPosition s1 < loopEnd s1
                                then loopEnd s1 - audioPosition s1
                                else audioPosition s1 - loopStart s1) in
               s1\<lparr>audioPosition := (if audioPosition s1 < loopEnd s1
                                      then loopEnd s1 + overshoot
                                      else loopStart s1 - overshoot),
                  playbackMultiplier := - playbackMultiplier s1\<rparr>
             else s1\<lparr>audioPosition := loopEnd s1\<rparr>)
          else s1)"

text \<open>\<^verbatim>\<open>handleLoop\<close> of \<^verbatim>\<open>burn/OPENBinarywaterFALL.cpp\<close>; the wrapped region tests the
  direction first and the position inside.\<close>

definition burn_handleLoop :: "real \<Rightarrow> real \<Rightarrow> burn_player \<Rightarrow> burn_player" where
  "burn_handleLoop fileSize bytesPerSample s =
     (if \<not> loopEnabled s then s\<lparr>audioPosition := wrapPosition (audioPosition s) fileSize\<rparr>
      else
        let forward = (bytesPerSample > 0) in
        if loopStart s = loopEnd s then s\<lparr>audioPosition := loopStart s\<rparr>
        else if loopStart s < loopEnd s then
          (if forward \<and> audioPosition s > loopEnd s then
             (if boomerangMode s then
                let overshoot = audioPosition s - loopEnd s in
                s\<lparr>audioPosition := loopEnd s - overshoot,
                  playbackFrequency := - playbackFrequency s\<rparr>
              else s\<lparr>audioPosition := loopStart s\<rparr>)
           else if \<not> forward \<and> audioPosition s < loopStart s then
             (if boomerangMode s then
                let overshoot = loopStart s - audioPosition s in
                s\<lparr>audioPosition := loopStart s + overshoot,
                  playbackFrequency := - playbackFrequency s\<rparr>
              else s\<lparr>audioPosition := loopEnd s\<rparr>)
           else s)
        else
          let s1 = s\<lparr>audioPosition := wrapPosition (audioPosition s) fileSize\<rparr> in
          if forward then
            (if audioPosition s1 > loopEnd s1 \<and> audioPosition s1 < loopStart s1 then
               (if boomerangMode s1 then
                  let overshoot = audioPosition s1 - loopEnd s1 in
                  s1\<lparr>audioPosition := loopEnd s1 - overshoot,
                     playbackFrequency := - playbackFrequency s1\<rparr>
                else s1\<lparr>audioPosition := loopStart s1\<rparr>)
             else s1)
          else
            (if audioPosition s1 < loopEnd s1 \<or> audioPosition s1 > loopStart s1 then
               (if boomerangMode s1 then
                  let overshoot = (if audioPosition s1 < loopEnd s1
                                   then loopEnd s1 - audioPosition s1
                                   else audioPosition s1 - loopStart s1) in
                  s1\<lparr>audioPosition := (if audioPosition s1 < loopEnd s1
                                         then loopEnd s1 + overshoot
                                         else loopStart s1 - overshoot),
                     playbackFrequency := - playbackFrequency s1\<rparr>
                else s1\<lparr>audioPosition := loopEnd s1\<rparr>)
             else s1))"

section \<open>Audio callback\<close>

text \<open>
  The first two statements of the per-sample loop of \<^verbatim>\<open>jackProcessCallback\<close>:
  \<^verbatim>\<open>audioPosition += effectiveAdvance; handleLoop(fileSize, effectiveAdvance);\<close>
\<close>

definition advance_position :: "real \<Rightarrow> real \<Rightarrow> main_player \<Rightarrow> main_player" where
  "advance_position fileSize effectiveAdvance s =
     handleLoop fileSize effectiveAdvance (s\<lparr>audioPosition := audioPosition s + effectiveAdvance\<rparr>)"

definition burn_advance_position :: "real \<Rightarrow> real \<Rightarrow> burn_player \<Rightarrow> burn_player" where
  "burn_advance_position fileSize bytesPerSample s =
     burn_handleLoop fileSize bytesPerSample (s\<lparr>audioPosition := audioPosition s + bytesPerSample\<rparr>)"

text \<open>\<^verbatim>\<open>float sample = (static_cast<int>(val) - 128) / 128.0f; sample *= audioVolume;\<close>\<close>

definition sample_of :: "byte \<Rightarrow> real \<Rightarrow> real" where
  "sample_of val volume = (of_int (int (unat val) - 128) / 128) * volume"

text \<open>One iteration of the per-sample loop of \<^verbatim>\<open>OpenBinaryWaterFall.cpp\<close>; the index is
  clamped to the last byte before the read.\<close>

definition sample_step :: "byte list \<Rightarrow> real \<Rightarrow> main_player \<Rightarrow> fault + (real \<times> main_player)" where
  "sample_step fd effectiveAdvance s =
     (let s1 = advance_position (real (length fd)) effectiveAdvance s in
      case to_size_t (audioPosition s1) of
        Inl e \<Rightarrow> Inl e
      | Inr index0 \<Rightarrow>
          let index = (if index0 \<ge> length fd then length fd - 1 else index0) in
          (case vector_read fd index of
             Inl e \<Rightarrow> Inl e
           | Inr val \<Rightarrow> Inr (sample_of val (audioVolume s1), s1)))"

text \<open>One iteration of the per-sample loop of \<^verbatim>\<open>burn/OPENBinarywaterFALL.cpp\<close>; the index is
  used as converted.\<close>

definition burn_sample_step :: "byte list \<Rightarrow> real \<Rightarrow> burn_player \<Rightarrow> fault + (real \<times> burn_player)" where
  "burn_sample_step fd bytesPerSample s =
     (let s1 = burn_advance_position (real (length fd)) bytesPerSample s in
      case to_size_t (audioPosition s1) of
        Inl e \<Rightarrow> Inl e
      | Inr index \<Rightarrow>
          (case vector_read fd index of
             Inl e \<Rightarrow> Inl e
           | Inr val \<Rightarrow> Inr (sample_of val (audioVolume s1), s1)))"

text \<open>The per-sample loop: \<open>nframes\<close> iterations with the advance computed once before the
  loop; every sample goes to the left and the right port.\<close>

fun sample_loop :: "byte list \<Rightarrow> real \<Rightarrow> nat \<Rightarrow> main_player \<Rightarrow> fault + ((real \<times> real) list \<times> main_player)" where
  "sample_loop fd effectiveAdvance 0 s = Inr ([], s)"
| "sample_loop fd effectiveAdvance (Suc n) s =
     (case sample_step fd effectiveAdvance s of
        Inl e \<Rightarrow> Inl e
      | Inr (sample, s1) \<Rightarrow>
          (case sample_loop fd effectiveAdvance n s1 of
             Inl e \<Rightarrow> Inl e
           | Inr (out, s2) \<Rightarrow> Inr ((sample, sample) # out, s2)))"

fun burn_sample_loop :: "byte list \<Rightarrow> real \<Rightarrow> nat \<Rightarrow> burn_player \<Rightarrow> fault + ((real \<times> real) list \<times> burn_player)" where
  "burn_sample_loop fd bytesPerSample 0 s = Inr ([], s)"
| "burn_sample_loop fd bytesPerSample (Suc n) s =
     (case burn_sample_step fd bytesPerSample s of
        Inl e \<Rightarrow> Inl e
      | Inr (sample, s1) \<Rightarrow>
          (case burn_sample_loop fd bytesPerSample n s1 of
             Inl e \<Rightarrow> Inl e
           | Inr (out, s2) \<Rightarrow> Inr ((sample, sample) # out, s2)))"

text \<open>\<^verbatim>\<open>jackProcessCallback\<close> of \<^verbatim>\<open>OpenBinaryWaterFall.cpp\<close>; \<open>sampleRate\<close> is the rate JACK
  reported at start-up, a positive number. The result is the list of (left, right) samples
  and the new state.\<close>

definition jackProcessCallback ::
  "byte list \<Rightarrow> nat \<Rightarrow> nat \<Rightarrow> main_player \<Rightarrow> fault + ((real \<times> real) list \<times> main_player)" where
  "jackProcessCallback fd sampleRate nframes s =
     (if isPaused s \<or> \<not> isAudioEnabled s \<or> fd = [] then Inr (replicate nframes (0, 0), s)
      else
        let frameBytes = real (FRAME_WIDTH * FRAME_HEIGHT);
            baseAdvancement = (frameBytes * real BASE_FRAME_RATE) / real sampleRate;
            effectiveAdvance = baseAdvancement * playbackMultiplier s
        in sample_loop fd effectiveAdvance nframes s)"

text \<open>\<^verbatim>\<open>jackProcessCallback\<close> of \<^verbatim>\<open>burn/OPENBinarywaterFALL.cpp\<close>.\<close>

definition burn_jackProcessCallback ::
  "byte list \<Rightarrow> nat \<Rightarrow> burn_player \<Rightarrow> fault + ((real \<times> real) list \<times> burn_player)" where
  "burn_jackProcessCallback fd nframes s =
     (if isPaused s \<or> \<not> isAudioEnabled s \<or> fd = [] then Inr (replicate nframes (0, 0), s)
      else
        let bytesPerSample = real_of_int (playbackFrequency s) / real_of_int DEFAULT_FREQUENCY
        in burn_sample_loop fd bytesPerSample nframes s)"

section \<open>Frame selection and colouring\<close>

text \<open>
  \<^verbatim>\<open>renderFrame\<close> of \<^verbatim>\<open>burn/OPENBinarywaterFALL.cpp\<close> draws one frame: \<open>frameIndex\<close> is the
  wrapped position divided by the frame size, converted to \<^verbatim>\<open>size_t\<close> and clamped to the last
  whole frame; \<open>totalFrames - 1\<close> is computed in \<^verbatim>\<open>size_t\<close>.
\<close>

definition burn_frameIndex :: "media \<Rightarrow> real \<Rightarrow> fault + nat" where
  "burn_frameIndex m pos =
     (let fileSize = real (length (fileData m));
          wrappedPos = wrapPosition pos fileSize;
          bytesPerFrame = burn_FRAME_WIDTH * burn_FRAME_HEIGHT
      in case to_size_t (wrappedPos / real bytesPerFrame) of
           Inl e \<Rightarrow> Inl e
         | Inr frameIndex \<Rightarrow>
             Inr (if frameIndex \<ge> totalFrames m
                  then size_t_pred (totalFrames m)
                  else frameIndex))"

definition burn_frameOffset :: "media \<Rightarrow> real \<Rightarrow> fault + nat" where
  "burn_frameOffset m pos =
     (case burn_frameIndex m pos of
        Inl e \<Rightarrow> Inl e
      | Inr frameIndex \<Rightarrow> Inr (frameIndex * (burn_FRAME_WIDTH * burn_FRAME_HEIGHT)))"

text \<open>
  \<^verbatim>\<open>renderFrame\<close> of \<^verbatim>\<open>OpenBinaryWaterFall.cpp\<close> tiles the window with consecutive frames:
  \<open>startFrame\<close> is the wrapped position divided by the frame size, and the tile in row \<open>r\<close>,
  column \<open>c\<close> of a grid with \<open>columns\<close> columns shows frame
  \<open>(startFrame + r * columns + c) % totalFrames\<close>.
\<close>

definition startFrame :: "media \<Rightarrow> real \<Rightarrow> fault + nat" where
  "startFrame m pos =
     to_size_t (wrapPosition pos (real (length (fileData m))) / real (FRAME_WIDTH * FRAME_HEIGHT))"

definition frameIndex :: "media \<Rightarrow> real \<Rightarrow> nat \<Rightarrow> nat \<Rightarrow> nat \<Rightarrow> fault + nat" where
  "frameIndex m pos columns r c =
     (case startFrame m pos of
        Inl e \<Rightarrow> Inl e
      | Inr start \<Rightarrow>
          if totalFrames m = 0 then Inl DivisionByZero
          else Inr ((start + r * columns + c) mod totalFrames m))"

definition frameOffset :: "media \<Rightarrow> real \<Rightarrow> nat \<Rightarrow> nat \<Rightarrow> nat \<Rightarrow> fault + nat" where
  "frameOffset m pos columns r c =
     (case frameIndex m pos columns r c of
        Inl e \<Rightarrow> Inl e
      | Inr i \<Rightarrow> Inr (i * FRAME_WIDTH * FRAME_HEIGHT))"

text \<open>The title bar of \<^verbatim>\<open>OpenBinaryWaterFall.cpp\<close> (\<^verbatim>\<open>main\<close>) computes \<open>currentFrame\<close> with the
  clamp that its \<^verbatim>\<open>renderFrame\<close> does not have.\<close>

definition currentFrame :: "media \<Rightarrow> real \<Rightarrow> fault + nat" where
  "currentFrame m pos =
     (let fileSize = real (length (fileData m));
          wrappedPos = wrapPosition pos fileSize
      in case to_size_t (wrappedPos / real (FRAME_WIDTH * FRAME_HEIGHT)) of
           Inl e \<Rightarrow> Inl e
         | Inr cur \<Rightarrow>
             Inr (if cur \<ge> totalFrames m
                  then size_t_pred (totalFrames m)
                  else cur))"

text \<open>The 18-entry table \<^verbatim>\<open>rainbow\<close> and the colour of one pixel, the same in both files.\<close>

definition rainbow :: "(real \<times> real \<times> real) list" where
  "rainbow =
     [(1, 0, 0), (0, 1, 0), (0, 0, 1),
      (1, 0, 1), (0, 1, 1), (1, 1, 0),
      (1, 75 / 100, 8 / 10), (5 / 10, 1, 0), (0, 75 / 100, 1),
      (76 / 100, 7 / 10, 0), (9 / 10, 3 / 10, 0), (58 / 100, 0, 83 / 100),
      (29 / 100, 0, 51 / 100), (0, 42 / 100, 5 / 10), (0, 1, 5 / 10),
      (42 / 100, 56 / 100, 14 / 100), (1, 65 / 100, 0), (4 / 10, 0, 1)]"

definition colorIndex :: "byte \<Rightarrow> nat" where
  "colorIndex v = (unat v div 14) mod 18"

definition intensity :: "byte \<Rightarrow> real" where
  "intensity v = real ((unat v mod 14) + 1) / 14"

definition pixel_color :: "byte \<Rightarrow> real \<times> real \<times> real" where
  "pixel_color v =
     (case rainbow ! colorIndex v of
        (r, g, b) \<Rightarrow> (r * intensity v, g * intensity v, b * intensity v))"

section \<open>Keyboard commands\<close>

datatype key =
    GLFW_KEY_ESCAPE | GLFW_KEY_F | GLFW_KEY_F11 | GLFW_KEY_SPACE | GLFW_KEY_RIGHT
  | GLFW_KEY_LEFT | GLFW_KEY_0 | GLFW_KEY_MINUS | GLFW_KEY_EQUAL | GLFW_KEY_M | GLFW_KEY_R
  | GLFW_KEY_BACKSPACE | GLFW_KEY_PAGE_UP | GLFW_KEY_PAGE_DOWN | GLFW_KEY_HOME | GLFW_KEY_END
  | GLFW_KEY_L | GLFW_KEY_B | GLFW_KEY_COMMA | GLFW_KEY_PERIOD | GLFW_KEY_LEFT_BRACKET
  | GLFW_KEY_RIGHT_BRACKET | GLFW_KEY_OTHER

datatype action = GLFW_RELEASE | GLFW_PRESS | GLFW_REPEAT

text \<open>\<^verbatim>\<open>calculateLogAdjustment\<close> of \<^verbatim>\<open>OpenBinaryWaterFall.cpp\<close>.\<close>

definition calculateLogAdjustment :: "real \<Rightarrow> real" where
  "calculateLogAdjustment currentMultiplier =
     (let absVal = \<bar>currentMultiplier\<bar> in
      if absVal < 1 then 1 / 10
      else if absVal < 10 then 5 / 10
      else 1)"

text \<open>\<^verbatim>\<open>toggleFullscreen\<close>, as far as the program's own variables go.\<close>

definition toggleFullscreen :: "'a player_scheme \<Rightarrow> 'a player_scheme" where
  "toggleFullscreen s = (if isFullscreen s then s\<lparr>isFullscreen := False\<rparr> else s\<lparr>isFullscreen := True\<rparr>)"

text \<open>\<^verbatim>\<open>keyCallback\<close> of \<^verbatim>\<open>OpenBinaryWaterFall.cpp\<close>; keys without a \<^verbatim>\<open>case\<close> are \<open>GLFW_KEY_OTHER\<close>.\<close>

definition keyCallback :: "media \<Rightarrow> key \<Rightarrow> action \<Rightarrow> main_player \<Rightarrow> main_player" where
  "keyCallback m k act s =
     (if act \<noteq> GLFW_PRESS then s
      else case k of
        GLFW_KEY_ESCAPE \<Rightarrow>
          (if isFullscreen s then toggleFullscreen s else s\<lparr>windowShouldClose := True\<rparr>)
      | GLFW_KEY_F \<Rightarrow> toggleFullscreen s
      | GLFW_KEY_F11 \<Rightarrow> toggleFullscreen s
      | GLFW_KEY_SPACE \<Rightarrow> s\<lparr>isPaused := \<not> isPaused s\<rparr>
      | GLFW_KEY_RIGHT \<Rightarrow> s\<lparr>audioPosition := audioPosition s + real (FRAME_WIDTH * FRAME_HEIGHT)\<rparr>
      | GLFW_KEY_LEFT \<Rightarrow> s\<lparr>audioPosition := audioPosition s - real (FRAME_WIDTH * FRAME_HEIGHT)\<rparr>
      | GLFW_KEY_0 \<Rightarrow> s\<lparr>playbackMultiplier := 1\<rparr>
      | GLFW_KEY_MINUS \<Rightarrow>
          (let neg = - playbackMultiplier s in
           s\<lparr>playbackMultiplier := (if neg = 0 then - 1 else neg)\<rparr>)
      | GLFW_KEY_EQUAL \<Rightarrow>
          (let pos = \<bar>playbackMultiplier s\<bar> in
           s\<lparr>playbackMultiplier := (if pos = 0 then 1 else pos)\<rparr>)
      | GLFW_KEY_M \<Rightarrow> s\<lparr>isAudioEnabled := \<not> isAudioEnabled s\<rparr>
      | GLFW_KEY_R \<Rightarrow>
          (let neg = - playbackMultiplier s in
           s\<lparr>playbackMultiplier := (if neg = 0 then - 1 else neg)\<rparr>)
      | GLFW_KEY_BACKSPACE \<Rightarrow> s\<lparr>audioPosition := 0, playbackMultiplier := 1, isPaused := False\<rparr>
      | GLFW_KEY_PAGE_UP \<Rightarrow>
          (let step = calculateLogAdjustment (playbackMultiplier s) in
           s\<lparr>playbackMultiplier := playbackMultiplier s + step\<rparr>)
      | GLFW_KEY_PAGE_DOWN \<Rightarrow>
          (let step = calculateLogAdjustment (playbackMultiplier s) in
           s\<lparr>playbackMultiplier := playbackMultiplier s - step\<rparr>)
      | GLFW_KEY_HOME \<Rightarrow> s\<lparr>audioPosition := 0\<rparr>
      | GLFW_KEY_END \<Rightarrow>
          s\<lparr>audioPosition := real (FRAME_WIDTH * FRAME_HEIGHT) * real (size_t_pred (totalFrames m))\<rparr>
      | GLFW_KEY_L \<Rightarrow> s\<lparr>loopEnabled := \<not> loopEnabled s\<rparr>
      | GLFW_KEY_B \<Rightarrow> s\<lparr>boomerangMode := \<not> boomerangMode s\<rparr>
      | GLFW_KEY_COMMA \<Rightarrow> (if \<not> loopEnabled s then s\<lparr>loopStart := audioPosition s\<rparr> else s)
      | GLFW_KEY_PERIOD \<Rightarrow> (if \<not> loopEnabled s then s\<lparr>loopEnd := audioPosition s\<rparr> else s)
      | GLFW_KEY_LEFT_BRACKET \<Rightarrow> (if windowScale s > 1 then s\<lparr>windowScale := windowScale s - 1\<rparr> else s)
      | GLFW_KEY_RIGHT_BRACKET \<Rightarrow> s\<lparr>windowScale := windowScale s + 1\<rparr>
      | GLFW_KEY_OTHER \<Rightarrow> s)"

text \<open>The Page Up and Page Down ladders of \<^verbatim>\<open>burn/OPENBinarywaterFALL.cpp\<close>.\<close>

definition burn_page_up :: "int \<Rightarrow> int" where
  "burn_page_up f =
     (if \<bar>f\<bar> < 10 then (if f \<ge> 0 then 10 else - 10)
      else if \<bar>f\<bar> < 60 then (if f \<ge> 0 then 60 else - 60)
      else if \<bar>f\<bar> < 100 then (if f \<ge> 0 then 100 else - 100)
      else if \<bar>f\<bar> < 1000 then (if f \<ge> 0 then 1000 else - 1000)
      else if \<bar>f\<bar> < 10000 then (if f \<ge> 0 then 10000 else - 10000)
      else if \<bar>f\<bar> < 100000 then (if f \<ge> 0 then 100000 else - 100000)
      else (if f \<ge> 0 then 1000000 else - 1000000))"

definition burn_page_down :: "int \<Rightarrow> int" where
  "burn_page_down f =
     (if \<bar>f\<bar> > 100000 then (if f \<ge> 0 then 100000 else - 100000)
      else if \<bar>f\<bar> > 10000 then (if f \<ge> 0 then 10000 else - 10000)
      else if \<bar>f\<bar> > 1000 then (if f \<ge> 0 then 1000 else - 1000)
      else if \<bar>f\<bar> > 100 then (if f \<ge> 0 then 100 else - 100)
      else if \<bar>f\<bar> > 60 then (if f \<ge> 0 then 60 else - 60)
      else if \<bar>f\<bar> > 10 then (if f \<ge> 0 then 10 else - 10)
      else (if f \<ge> 0 then 1 else - 1))"

text \<open>\<^verbatim>\<open>keyCallback\<close> of \<^verbatim>\<open>burn/OPENBinarywaterFALL.cpp\<close>; it has no bracket keys.\<close>

definition burn_keyCallback :: "media \<Rightarrow> key \<Rightarrow> action \<Rightarrow> burn_player \<Rightarrow> burn_player" where
  "burn_keyCallback m k act s =
     (if act \<noteq> GLFW_PRESS then s
      else case k of
        GLFW_KEY_ESCAPE \<Rightarrow>
          (if isFullscreen s then toggleFullscreen s else s\<lparr>windowShouldClose := True\<rparr>)
      | GLFW_KEY_F \<Rightarrow> toggleFullscreen s
      | GLFW_KEY_F11 \<Rightarrow> toggleFullscreen s
      | GLFW_KEY_SPACE \<Rightarrow> s\<lparr>isPaused := \<not> isPaused s\<rparr>
      | GLFW_KEY_RIGHT \<Rightarrow>
          s\<lparr>audioPosition := audioPosition s + real (burn_FRAME_WIDTH * burn_FRAME_HEIGHT)\<rparr>
      | GLFW_KEY_LEFT \<Rightarrow>
          s\<lparr>audioPosition := audioPosition s - real (burn_FRAME_WIDTH * burn_FRAME_HEIGHT)\<rparr>
      | GLFW_KEY_0 \<Rightarrow> s\<lparr>playbackFrequency := 0\<rparr>
      | GLFW_KEY_MINUS \<Rightarrow>
          (let neg = - playbackFrequency s in
           s\<lparr>playbackFrequency := (if neg = 0 then - DEFAULT_FREQUENCY else neg)\<rparr>)
      | GLFW_KEY_EQUAL \<Rightarrow>
          (let pos = \<bar>playbackFrequency s\<bar> in
           s\<lparr>playbackFrequency := (if pos = 0 then DEFAULT_FREQUENCY else pos)\<rparr>)
      | GLFW_KEY_M \<Rightarrow> s\<lparr>isAudioEnabled := \<not> isAudioEnabled s\<rparr>
      | GLFW_KEY_R \<Rightarrow>
          (let neg = - playbackFrequency s in
           s\<lparr>playbackFrequency := (if neg = 0 then - DEFAULT_FREQUENCY else neg)\<rparr>)
      | GLFW_KEY_BACKSPACE \<Rightarrow>
          s\<lparr>audioPosition := 0, playbackFrequency := DEFAULT_FREQUENCY, isPaused := False\<rparr>
      | GLFW_KEY_PAGE_UP \<Rightarrow> s\<lparr>playbackFrequency := burn_page_up (playbackFrequency s)\<rparr>
      | GLFW_KEY_PAGE_DOWN \<Rightarrow> s\<lparr>playbackFrequency := burn_page_down (playbackFrequency s)\<rparr>
      | GLFW_KEY_HOME \<Rightarrow> s\<lparr>audioPosition := 0\<rparr>
      | GLFW_KEY_END \<Rightarrow>
          s\<lparr>audioPosition :=
              real (burn_FRAME_WIDTH * burn_FRAME_HEIGHT) * real (size_t_pred (totalFrames m))\<rparr>
      | GLFW_KEY_L \<Rightarrow> s\<lparr>loopEnabled := \<not> loopEnabled s\<rparr>
      | GLFW_KEY_B \<Rightarrow> s\<lparr>boomerangMode := \<not> boomerangMode s\<rparr>
      | GLFW_KEY_COMMA \<Rightarrow> (if \<not> loopEnabled s then s\<lparr>loopStart := audioPosition s\<rparr> else s)
      | GLFW_KEY_PERIOD \<Rightarrow> (if \<not> loopEnabled s then s\<lparr>loopEnd := audioPosition s\<rparr> else s)
      | GLFW_KEY_LEFT_BRACKET \<Rightarrow> s
      | GLFW_KEY_RIGHT_BRACKET \<Rightarrow> s
      | GLFW_KEY_OTHER \<Rightarrow> s)"

section \<open>Start-up state\<close>

text \<open>The initial values of the file-scope variables and the assignments \<^verbatim>\<open>main\<close> makes after a
  successful load: the loop runs from byte 0 to the end of frame 34, whatever the size of the
  file, and is enabled. The burn variant sets \<open>isAudioEnabled\<close> to the result of
  \<^verbatim>\<open>initJackAudio\<close>; the state below is the one with audio running.\<close>

definition initial_player :: main_player where
  "initial_player =
     \<lparr>isPaused = False, isFullscreen = False, isAudioEnabled = True, audioVolume = 1,
      audioPosition = 0, loopEnabled = True, boomerangMode = False,
      loopStart = 0, loopEnd = 34 * real (FRAME_WIDTH * FRAME_HEIGHT),
      windowShouldClose = False, playbackMultiplier = 1, windowScale = 4\<rparr>"

definition burn_initial_player :: burn_player where
  "burn_initial_player =
     \<lparr>isPaused = False, isFullscreen = False, isAudioEnabled = True, audioVolume = 1,
      audioPosition = 0, loopEnabled = True, boomerangMode = False,
      loopStart = 0, loopEnd = 34 * real (burn_FRAME_WIDTH * burn_FRAME_HEIGHT),
      windowShouldClose = False, playbackFrequency = 14000\<rparr>"

section \<open>The wrap in exact arithmetic\<close>

text \<open>In exact arithmetic the wrap lands in \<open>[0, N)\<close>, a whole multiple of \<open>N\<close> away from its
  argument.\<close>

lemma floor_mult_bounds:
  fixes q y :: real
  assumes "0 < y"
  shows "of_int \<lfloor>q\<rfloor> * y \<le> q * y" and "q * y < (of_int \<lfloor>q\<rfloor> + 1) * y"
proof -
  have "of_int \<lfloor>q\<rfloor> \<le> q" by (rule of_int_floor_le)
  then show "of_int \<lfloor>q\<rfloor> * y \<le> q * y" using assms by (simp add: mult_right_mono)
  have "q < of_int \<lfloor>q\<rfloor> + 1" by linarith
  then show "q * y < (of_int \<lfloor>q\<rfloor> + 1) * y" using assms by (simp add: mult_strict_right_mono)
qed

lemma fmod_nonneg:
  assumes "0 < y" "0 \<le> x"
  shows "0 \<le> fmod x y \<and> fmod x y < y"
proof -
  have q: "0 \<le> x / y" using assms by simp
  then have t: "trunc (x / y) = \<lfloor>x / y\<rfloor>" by (simp add: trunc_def)
  have xy: "x / y * y = x" using assms(1) by simp
  show ?thesis
    using floor_mult_bounds[OF assms(1), of "x / y"] unfolding fmod_def t xy
    by (simp add: algebra_simps)
qed

lemma fmod_neg:
  assumes "0 < y" "x < 0"
  shows "- y < fmod x y \<and> fmod x y \<le> 0"
proof -
  have q: "x / y < 0" using assms by (simp add: divide_neg_pos)
  then have t: "trunc (x / y) = - \<lfloor>- (x / y)\<rfloor>" by (simp add: trunc_def)
  have xy: "- (x / y) * y = - x" using assms(1) by simp
  show ?thesis
    using floor_mult_bounds[OF assms(1), of "- (x / y)"] unfolding fmod_def t xy
    by (simp add: algebra_simps)
qed

lemma wrapPosition_bounds:
  assumes "0 < N"
  shows "0 \<le> wrapPosition x N \<and> wrapPosition x N < N"
  using fmod_nonneg[OF assms, of x] fmod_neg[OF assms, of x]
  by (auto simp: wrapPosition_def Let_def)

lemma wrapPosition_congruent: "\<exists>k::int. wrapPosition x N = x + of_int k * N"
proof -
  have a: "\<exists>k::int. fmod x N = x + of_int k * N"
    by (rule exI[of _ "- trunc (x / N)"]) (simp add: fmod_def)
  then obtain k :: int where k: "fmod x N = x + of_int k * N" by blast
  have b: "\<exists>j::int. fmod x N + N = x + of_int j * N"
    by (rule exI[of _ "k + 1"]) (simp add: k algebra_simps)
  have c: "\<exists>j::int. x = x + of_int j * N"
    by (rule exI[of _ 0]) simp
  show ?thesis using a b c by (auto simp: wrapPosition_def Let_def)
qed

section \<open>The wrap in binary64 arithmetic\<close>

text \<open>The definitions that the evaluation of a rounding unfolds.\<close>

lemmas binary64_defs = round_binary64_def binary_exponent_def compute_floorlog
  round_half_even_def Let_def

text \<open>\<open>binary_exponent\<close> is the binary exponent: \<open>2^e \<le> |x| < 2^(e+1)\<close>.\<close>

lemma binary_exponent_bounds:
  assumes "x \<noteq> 0"
  shows "2 powi binary_exponent x \<le> \<bar>x\<bar> \<and> \<bar>x\<bar> < 2 powi (binary_exponent x + 1)"
proof (cases "\<bar>x\<bar> \<ge> 1")
  case True
  define n where "n = nat \<lfloor>\<bar>x\<bar>\<rfloor>"
  define k where "k = floorlog 2 n"
  have n1: "1 \<le> n" using True by (simp add: n_def le_nat_iff le_floor_iff)
  have fl: "real n = of_int \<lfloor>\<bar>x\<bar>\<rfloor>"
    using True by (simp add: n_def)
  have nx: "real n \<le> \<bar>x\<bar>" "\<bar>x\<bar> < real n + 1"
    unfolding fl by linarith+
  have b: "2 ^ (k - 1) \<le> n \<and> n < 2 ^ k"
    using floorlog_bounds[of n 2] n1 by (simp add: k_def)
  have k1: "1 \<le> k" using b n1 by (cases k) auto
  have e: "binary_exponent x = int (k - 1)"
    using True k1 by (simp add: binary_exponent_def n_def k_def)
  have e1: "binary_exponent x + 1 = int k"
    using e k1 by simp
  have "real (2 ^ (k - 1)) \<le> real n" using b by (intro of_nat_mono) blast
  then have lo: "(2::real) ^ (k - 1) \<le> real n" by simp
  have "n + 1 \<le> 2 ^ k" using b by linarith
  then have "real (n + 1) \<le> real (2 ^ k)" by (rule of_nat_mono)
  then have hi: "real n + 1 \<le> (2::real) ^ k" by simp
  show ?thesis unfolding e1 unfolding e power_int_of_nat using lo hi nx by linarith
next
  case False
  define y where "y = 1 / \<bar>x\<bar>"
  define c where "c = nat \<lceil>y\<rceil>"
  define k where "k = floorlog 2 (c - 1)"
  have x0: "0 < \<bar>x\<bar>" using assms by simp
  have y1: "1 < y" using False x0 by (simp add: y_def)
  have cl: "real c = of_int \<lceil>y\<rceil>"
    using y1 by (simp add: c_def)
  have cy: "y \<le> real c" "real c < y + 1"
    unfolding cl by linarith+
  have c2: "2 \<le> c" using cy y1 by linarith
  have b: "2 ^ (k - 1) \<le> c - 1 \<and> c - 1 < 2 ^ k"
    using floorlog_bounds[of "c - 1" 2] c2 by (simp add: k_def)
  have k1: "1 \<le> k" using b c2 by (cases k) auto
  have e: "binary_exponent x = - int k"
    using False by (simp add: binary_exponent_def c_def y_def k_def)
  have e1: "binary_exponent x + 1 = - int (k - 1)"
    using e k1 by simp
  have "c \<le> 2 ^ k" using b c2 by linarith
  then have "real c \<le> real (2 ^ k)" by (rule of_nat_mono)
  then have hi: "real c \<le> (2::real) ^ k" by simp
  have "2 ^ (k - 1) + 1 \<le> c" using b c2 by linarith
  then have "real (2 ^ (k - 1) + 1) \<le> real c" by (rule of_nat_mono)
  then have lo: "(2::real) ^ (k - 1) + 1 \<le> real c" by simp
  have yk: "y \<le> 2 ^ k" using cy hi by linarith
  have ky: "2 ^ (k - 1) < y" using cy lo by linarith
  have xy: "\<bar>x\<bar> = 1 / y" using x0 by (simp add: y_def)
  have ypos: "0 < y" using y1 by simp
  have lo': "1 / 2 ^ k \<le> \<bar>x\<bar>"
    unfolding xy using yk ypos by (simp add: frac_le)
  have hi': "\<bar>x\<bar> < 1 / 2 ^ (k - 1)"
    unfolding xy using ky by (simp add: frac_less2)
  show ?thesis
    unfolding e1 unfolding e power_int_minus_divide power_int_of_nat using lo' hi' by simp
qed

text \<open>Rounding is monotone, so a sum strictly between \<open>0\<close> and a binary64 value \<open>N\<close>
  rounds into \<open>[0, N]\<close>.\<close>

lemma round_half_even_of_int: "round_half_even (of_int n) = n"
  by (simp add: round_half_even_def)

lemma round_half_even_mono:
  assumes "q \<le> r"
  shows "round_half_even q \<le> round_half_even r"
proof -
  have fm: "\<lfloor>q\<rfloor> \<le> \<lfloor>r\<rfloor>" using assms by (rule floor_mono)
  have bq: "round_half_even q \<le> \<lfloor>q\<rfloor> + 1" and br: "\<lfloor>r\<rfloor> \<le> round_half_even r"
    by (simp_all add: round_half_even_def Let_def)
  show ?thesis
  proof (cases "\<lfloor>q\<rfloor> = \<lfloor>r\<rfloor>")
    case True
    then show ?thesis using assms by (auto simp: round_half_even_def Let_def)
  next
    case False
    then show ?thesis using fm bq br by linarith
  qed
qed

lemma round_binary64_below:
  assumes "0 < y" "y < N" "round_binary64 N = N"
  shows "0 \<le> round_binary64 y \<and> round_binary64 y \<le> N"
proof -
  define ey where "ey = max (binary_exponent y) (- 1022)"
  define eN where "eN = max (binary_exponent N) (- 1022)"
  define uy :: real where "uy = 2 powi (ey - 52)"
  define uN :: real where "uN = 2 powi (eN - 52)"
  have N0: "0 < N" using assms by linarith
  have ry: "round_binary64 y = uy * of_int (round_half_even (y / uy))"
    using assms(1) by (simp add: round_binary64_def Let_def ey_def uy_def)
  have rN: "round_binary64 N = uN * of_int (round_half_even (N / uN))"
    using N0 by (simp add: round_binary64_def Let_def eN_def uN_def)
  have uy0: "0 < uy" and uN0: "0 < uN" by (simp_all add: uy_def uN_def)
  have "0 \<le> y / uy" using assms(1) uy0 by simp
  then have "round_half_even 0 \<le> round_half_even (y / uy)"
    by (rule round_half_even_mono)
  moreover have "round_half_even 0 = 0" by (simp add: round_half_even_def)
  ultimately have nn: "0 \<le> round_half_even (y / uy)" by simp
  have lower: "0 \<le> round_binary64 y" unfolding ry using uy0 nn by simp
  have bnd_y: "2 powi binary_exponent y \<le> y \<and> y < 2 powi (binary_exponent y + 1)"
    using binary_exponent_bounds[of y] assms(1) by simp
  have bnd_N: "2 powi binary_exponent N \<le> N \<and> N < 2 powi (binary_exponent N + 1)"
    using binary_exponent_bounds[of N] N0 by simp
  have ble: "binary_exponent y \<le> binary_exponent N"
  proof (rule ccontr)
    assume "\<not> binary_exponent y \<le> binary_exponent N"
    then have "binary_exponent N + 1 \<le> binary_exponent y" by simp
    then have "(2::real) powi (binary_exponent N + 1) \<le> 2 powi binary_exponent y"
      by (intro power_int_increasing) simp_all
    then show False using bnd_y bnd_N assms(2) by linarith
  qed
  then have ele: "ey \<le> eN" by (simp add: ey_def eN_def)
  have upper: "round_binary64 y \<le> N"
  proof (cases "ey = eN")
    case True
    then have u: "uy = uN" by (simp add: uy_def uN_def)
    have "y / uN \<le> N / uN" using assms(2) uN0 by (simp add: divide_right_mono)
    then have "round_half_even (y / uN) \<le> round_half_even (N / uN)"
      by (rule round_half_even_mono)
    then have "uN * of_int (round_half_even (y / uN)) \<le> uN * of_int (round_half_even (N / uN))"
      using uN0 by simp
    then show ?thesis using ry rN u assms(3) by simp
  next
    case False
    then have lt: "ey + 1 \<le> eN" using ele by simp
    have "- 1022 \<le> ey" by (simp add: ey_def)
    then have eNb: "eN = binary_exponent N" using lt by (simp add: eN_def)
    have yb: "y < 2 powi (ey + 1)"
    proof -
      have "(2::real) powi (binary_exponent y + 1) \<le> 2 powi (ey + 1)"
        by (intro power_int_increasing) (simp_all add: ey_def)
      then show ?thesis using bnd_y by linarith
    qed
    have a: "(ey - 52) + 53 = ey + 1" by simp
    have "(2::real) powi ((ey - 52) + 53) = 2 powi (ey - 52) * 2 powi 53"
      by (rule power_int_add) simp
    then have split: "(2::real) powi (ey + 1) = uy * 2 ^ 53"
      unfolding a uy_def by simp
    have "y < uy * 2 ^ 53" using yb split by simp
    then have "y / uy < 2 ^ 53"
      using uy0 by (simp add: divide_less_eq mult.commute)
    then have "y / uy \<le> of_int (2 ^ 53)" by simp
    then have "round_half_even (y / uy) \<le> round_half_even (of_int (2 ^ 53))"
      by (rule round_half_even_mono)
    then have "round_half_even (y / uy) \<le> 2 ^ 53" by (simp only: round_half_even_of_int)
    then have "real_of_int (round_half_even (y / uy)) \<le> real_of_int (2 ^ 53)"
      by (simp only: of_int_le_iff)
    then have "real_of_int (round_half_even (y / uy)) \<le> 2 ^ 53" by simp
    then have "uy * real_of_int (round_half_even (y / uy)) \<le> uy * 2 ^ 53"
      using uy0 by (simp only: mult_le_cancel_left_pos)
    then have "round_binary64 y \<le> uy * 2 ^ 53"
      unfolding ry .
    also have "\<dots> = 2 powi (ey + 1)" using split by simp
    also have "\<dots> \<le> 2 powi eN" using lt by (intro power_int_increasing) simp_all
    also have "\<dots> \<le> N" using bnd_N eNb by simp
    finally show ?thesis .
  qed
  show ?thesis using lower upper by blast
qed

text \<open>The binary64 wrap is the exact wrap, rounded where \<open>fileSize\<close> was added; its
  results lie in the closed interval \<open>[0, N]\<close>.\<close>

lemma wrapPosition_binary64_exact:
  "wrapPosition_binary64 x N =
     (if x < 0 \<and> fmod x N < 0 then round_binary64 (wrapPosition x N) else wrapPosition x N)"
  by (simp add: wrapPosition_binary64_def wrapPosition_def Let_def)

lemma wrapPosition_binary64_range:
  assumes "0 < N" and "round_binary64 N = N"
  shows "0 \<le> wrapPosition_binary64 x N \<and> wrapPosition_binary64 x N \<le> N"
proof (cases "x < 0 \<and> fmod x N < 0")
  case True
  have "- N < fmod x N" using fmod_neg[OF assms(1), of x] True by blast
  then have "0 < fmod x N + N" "fmod x N + N < N" using True by linarith+
  then have "0 \<le> round_binary64 (fmod x N + N) \<and> round_binary64 (fmod x N + N) \<le> N"
    using assms(2) by (intro round_binary64_below)
  then show ?thesis using True by (simp add: wrapPosition_binary64_def Let_def)
next
  case False
  then show ?thesis
    using fmod_nonneg[OF assms(1), of x] fmod_neg[OF assms(1), of x]
    by (auto simp: wrapPosition_binary64_def Let_def)
qed

text \<open>
  How a tiny negative position arises in \<^verbatim>\<open>burn/OPENBinarywaterFALL.cpp\<close>: at the start-up
  frequency \<^verbatim>\<open>bytesPerSample\<close> is the binary64 value of \<open>14000 / 24\<close>; three statements
  \<^verbatim>\<open>audioPosition += bytesPerSample\<close> from \<open>0\<close> give \<open>1750\<close>, and three more with the negated rate
  give \<open>-2^-42\<close> instead of \<open>0\<close>.
\<close>

lemma reverse_playback_residue:
  "round_binary64 (14000 / 24) = 5131054262954667 / 2 ^ 43
   \<and> round_binary64 (- 14000 / 24) = - (5131054262954667 / 2 ^ 43)
   \<and> round_binary64 (0 + 5131054262954667 / 2 ^ 43) = 5131054262954667 / 2 ^ 43
   \<and> round_binary64 (5131054262954667 / 2 ^ 43 + 5131054262954667 / 2 ^ 43)
       = 5131054262954667 / 2 ^ 42
   \<and> round_binary64 (5131054262954667 / 2 ^ 42 + 5131054262954667 / 2 ^ 43) = 1750
   \<and> round_binary64 (1750 + - (5131054262954667 / 2 ^ 43)) = 2565527131477333 / 2 ^ 41
   \<and> round_binary64 (2565527131477333 / 2 ^ 41 + - (5131054262954667 / 2 ^ 43))
       = 5131054262954665 / 2 ^ 43
   \<and> round_binary64 (5131054262954665 / 2 ^ 43 + - (5131054262954667 / 2 ^ 43))
       = - (1 / 2 ^ 42)"
  by (simp add: binary64_defs)

text \<open>
  Claim C6 says that \<^verbatim>\<open>wrapPosition\<close> maps every input into \<open>[0, N)\<close> for every \<open>N > 0\<close>, as
  the comment above the function does. In binary64 arithmetic it returns \<open>N\<close> itself for a
  tiny negative input: \<^verbatim>\<open>fmod\<close> leaves \<open>-2^-42\<close> as it is, it is still negative, and
  \<open>-2^-42 + 116480\<close> rounds to \<open>116480\<close>; converted to an index, that is one past the last
  byte of a one-frame file of the burn variant. The same happens at \<open>wrap(-2^-70, 10) = 10\<close>.
  The sample values of the claim hold: \<open>wrap(9.5, 10) = 9.5\<close>, \<open>wrap(10, 10) = 0\<close> and
  \<open>wrap(-0.5, 10) = 9.5\<close>.
\<close>

theorem C6_wrapPosition_reaches_fileSize:
  "fmod (- (1 / 2 ^ 42)) 116480 = - (1 / 2 ^ 42)
   \<and> round_binary64 (- (1 / 2 ^ 42) + 116480) = 116480
   \<and> wrapPosition_binary64 (- (1 / 2 ^ 42)) 116480 = 116480
   \<and> \<not> wrapPosition_binary64 (- (1 / 2 ^ 42)) 116480 < 116480
   \<and> (case to_size_t (wrapPosition_binary64 (- (1 / 2 ^ 42)) 116480) of
         Inl e \<Rightarrow> Inl e
       | Inr index \<Rightarrow> vector_read (replicate 116480 128) index) = Inl OutOfBounds
   \<and> wrapPosition_binary64 (- (1 / 2 ^ 70)) 10 = 10
   \<and> wrapPosition_binary64 (95 / 10) 10 = 95 / 10
   \<and> wrapPosition_binary64 10 10 = 0
   \<and> wrapPosition_binary64 (- (5 / 10)) 10 = 95 / 10"
  by (simp add: wrapPosition_binary64_def fmod_def trunc_def binary64_defs to_size_t_def
      vector_read_def)

section \<open>One advance step inside a loop\<close>

text \<open>
  Claim C3. With the loop enabled, \<open>loopStart < loopEnd\<close> and boomerang mode on, a forward
  step (advance \<open>> 0\<close>) whose incremented position exceeds \<open>loopEnd\<close> is resolved by
  reflection: the new position is \<open>loopEnd - (position - loopEnd)\<close>, the rate variable
  (\<open>playbackMultiplier\<close>, respectively \<open>playbackFrequency\<close>) is negated and nothing else
  changes, in both files. With the loop \<open>[0, 100)\<close>, advancing from \<open>99.9\<close> by \<open>1.0\<close> gives
  the position \<open>99.1\<close> and a negative rate.
\<close>

theorem C3_boomerang_forward_reflect:
  "(loopEnabled s \<and> loopStart s < loopEnd s \<and> boomerangMode s
      \<and> 0 < adv \<and> loopEnd s < audioPosition s + adv
    \<longrightarrow> advance_position N adv s =
          s\<lparr>audioPosition := loopEnd s - (audioPosition s + adv - loopEnd s),
            playbackMultiplier := - playbackMultiplier s\<rparr>)
   \<and> (loopEnabled b \<and> loopStart b < loopEnd b \<and> boomerangMode b
      \<and> 0 < adv \<and> loopEnd b < audioPosition b + adv
    \<longrightarrow> burn_advance_position N adv b =
          b\<lparr>audioPosition := loopEnd b - (audioPosition b + adv - loopEnd b),
            playbackFrequency := - playbackFrequency b\<rparr>)
   \<and> audioPosition (advance_position N 1
         (initial_player\<lparr>boomerangMode := True, loopStart := 0, loopEnd := 100,
            audioPosition := 999 / 10\<rparr>)) = 991 / 10
   \<and> playbackMultiplier (advance_position N 1
         (initial_player\<lparr>boomerangMode := True, loopStart := 0, loopEnd := 100,
            audioPosition := 999 / 10\<rparr>)) < 0"
  by (simp add: advance_position_def burn_advance_position_def handleLoop_def
      burn_handleLoop_def Let_def initial_player_def)

text \<open>The theorem at the position \<open>99.9\<close>, loop \<open>[0, 100)\<close> and advance \<open>1\<close>, for a start-up
  state of each file with boomerang mode switched on.\<close>

theorem C3_boomerang_forward_reflect_witness:
  "burn_advance_position 232960 1
     (burn_initial_player\<lparr>boomerangMode := True, loopEnd := 100, audioPosition := 999 / 10,
        playbackFrequency := 24\<rparr>)
   = burn_initial_player\<lparr>boomerangMode := True, loopEnd := 100, audioPosition := 991 / 10,
        playbackFrequency := - 24\<rparr>
   \<and> advance_position 81920 1
     (initial_player\<lparr>boomerangMode := True, loopEnd := 100, audioPosition := 999 / 10,
        playbackMultiplier := 125 / 512\<rparr>)
   = initial_player\<lparr>boomerangMode := True, loopEnd := 100, audioPosition := 991 / 10,
        playbackMultiplier := - (125 / 512)\<rparr>"
  using C3_boomerang_forward_reflect
    [of "initial_player\<lparr>boomerangMode := True, loopEnd := 100, audioPosition := 999 / 10,
        playbackMultiplier := 125 / 512\<rparr>" 1 81920
      "burn_initial_player\<lparr>boomerangMode := True, loopEnd := 100, audioPosition := 999 / 10,
        playbackFrequency := 24\<rparr>"]
    C3_boomerang_forward_reflect
    [of "initial_player\<lparr>boomerangMode := True, loopEnd := 100, audioPosition := 999 / 10,
        playbackMultiplier := 125 / 512\<rparr>" 1 232960
      "burn_initial_player\<lparr>boomerangMode := True, loopEnd := 100, audioPosition := 999 / 10,
        playbackFrequency := 24\<rparr>"]
  by (simp add: initial_player_def burn_initial_player_def)

text \<open>
  Claim C4. With the loop enabled, \<open>loopStart < loopEnd\<close> and boomerang mode off, a forward
  step whose incremented position exceeds \<open>loopEnd\<close> sets the position to exactly
  \<open>loopStart\<close>, and a backward step (advance \<open>< 0\<close>) whose incremented position is below
  \<open>loopStart\<close> sets it to exactly \<open>loopEnd\<close>; the rate and every other variable stay as they
  were. With the loop \<open>[0, 100)\<close>, advancing from \<open>99.9\<close> by \<open>1.0\<close> gives the position \<open>0\<close>.
\<close>

theorem C4_loop_pin:
  "(loopEnabled s \<and> loopStart s < loopEnd s \<and> \<not> boomerangMode s
      \<and> 0 < adv \<and> loopEnd s < audioPosition s + adv
    \<longrightarrow> advance_position N adv s = s\<lparr>audioPosition := loopStart s\<rparr>)
   \<and> (loopEnabled s \<and> loopStart s < loopEnd s \<and> \<not> boomerangMode s
      \<and> adv < 0 \<and> audioPosition s + adv < loopStart s
    \<longrightarrow> advance_position N adv s = s\<lparr>audioPosition := loopEnd s\<rparr>)
   \<and> advance_position N 1 (initial_player\<lparr>loopStart := 0, loopEnd := 100, audioPosition := 999 / 10\<rparr>)
       = initial_player\<lparr>loopStart := 0, loopEnd := 100, audioPosition := 0\<rparr>"
  by (simp add: advance_position_def handleLoop_def Let_def initial_player_def)

text \<open>The theorem at the loop \<open>[10, 100)\<close>: a forward exit from \<open>99.5\<close> and a backward exit
  from \<open>10.5\<close>.\<close>

theorem C4_loop_pin_witness:
  "advance_position 81920 (- 1)
     (initial_player\<lparr>loopStart := 10, loopEnd := 100, audioPosition := 105 / 10,
        playbackMultiplier := - (125 / 512)\<rparr>)
   = initial_player\<lparr>loopStart := 10, loopEnd := 100, audioPosition := 100,
        playbackMultiplier := - (125 / 512)\<rparr>
   \<and> advance_position 81920 1
     (initial_player\<lparr>loopStart := 10, loopEnd := 100, audioPosition := 995 / 10,
        playbackMultiplier := 125 / 512\<rparr>)
   = initial_player\<lparr>loopStart := 10, loopEnd := 100, audioPosition := 10,
        playbackMultiplier := 125 / 512\<rparr>"
  using C4_loop_pin
    [of "initial_player\<lparr>loopStart := 10, loopEnd := 100, audioPosition := 995 / 10,
        playbackMultiplier := 125 / 512\<rparr>" 1 81920]
    C4_loop_pin
    [of "initial_player\<lparr>loopStart := 10, loopEnd := 100, audioPosition := 105 / 10,
        playbackMultiplier := - (125 / 512)\<rparr>" "- 1" 81920]
  by (simp add: initial_player_def)

text \<open>
  Claim C5. With the loop enabled and \<open>loopStart = loopEnd\<close>, one advance step from any
  position with any advance sets the position to exactly \<open>loopStart\<close> and changes nothing
  else; with \<open>loopStart = loopEnd = 50\<close> every step gives the position \<open>50\<close>.
\<close>

theorem C5_degenerate_loop_pins:
  "(loopEnabled s \<and> loopStart s = loopEnd s
      \<longrightarrow> advance_position N adv s = s\<lparr>audioPosition := loopStart s\<rparr>)
   \<and> audioPosition (advance_position N adv
        (initial_player\<lparr>loopStart := 50, loopEnd := 50, audioPosition := p,
           boomerangMode := bm\<rparr>)) = 50"
  by (simp add: advance_position_def handleLoop_def Let_def initial_player_def)

text \<open>The theorem at the position \<open>12345\<close>, advance \<open>-7\<close> and boomerang mode on.\<close>

theorem C5_degenerate_loop_pins_witness:
  "advance_position 81920 (- 7)
     (initial_player\<lparr>loopStart := 50, loopEnd := 50, audioPosition := 12345, boomerangMode := True\<rparr>)
   = initial_player\<lparr>loopStart := 50, loopEnd := 50, audioPosition := 50, boomerangMode := True\<rparr>"
  using C5_degenerate_loop_pins
    [of "initial_player\<lparr>loopStart := 50, loopEnd := 50, audioPosition := 12345, boomerangMode := True\<rparr>"
      81920 "- 7"]
  by (simp add: initial_player_def)

section \<open>Setting the loop points\<close>

text \<open>
  Claim C10. In both files the comma and period keys set \<open>loopStart\<close>, respectively
  \<open>loopEnd\<close>, to the current position only while the loop is disabled; while it is enabled
  either key leaves the whole state unchanged, whatever the key action.
\<close>

theorem C10_loop_points_gated:
  "(loopEnabled s \<longrightarrow>
      keyCallback m GLFW_KEY_COMMA act s = s \<and> keyCallback m GLFW_KEY_PERIOD act s = s)
   \<and> (\<not> loopEnabled s \<longrightarrow>
      keyCallback m GLFW_KEY_COMMA GLFW_PRESS s = s\<lparr>loopStart := audioPosition s\<rparr>
      \<and> keyCallback m GLFW_KEY_PERIOD GLFW_PRESS s = s\<lparr>loopEnd := audioPosition s\<rparr>)
   \<and> (loopEnabled b \<longrightarrow>
      burn_keyCallback m GLFW_KEY_COMMA act b = b \<and> burn_keyCallback m GLFW_KEY_PERIOD act b = b)
   \<and> (\<not> loopEnabled b \<longrightarrow>
      burn_keyCallback m GLFW_KEY_COMMA GLFW_PRESS b = b\<lparr>loopStart := audioPosition b\<rparr>
      \<and> burn_keyCallback m GLFW_KEY_PERIOD GLFW_PRESS b = b\<lparr>loopEnd := audioPosition b\<rparr>)"
  by (simp add: keyCallback_def burn_keyCallback_def)

text \<open>The theorem at the start-up states (loop enabled) and at the same states with the loop
  disabled, the position being \<open>4096\<close>, for one-frame files of each variant.\<close>

theorem C10_loop_points_gated_witness:
  "keyCallback \<lparr>fileData = replicate 8192 128, totalFrames = 1\<rparr>
       GLFW_KEY_COMMA GLFW_PRESS (initial_player\<lparr>audioPosition := 4096\<rparr>)
     = initial_player\<lparr>audioPosition := 4096\<rparr>
   \<and> keyCallback \<lparr>fileData = replicate 8192 128, totalFrames = 1\<rparr>
       GLFW_KEY_PERIOD GLFW_PRESS (initial_player\<lparr>audioPosition := 4096\<rparr>)
     = initial_player\<lparr>audioPosition := 4096\<rparr>
   \<and> keyCallback \<lparr>fileData = replicate 8192 128, totalFrames = 1\<rparr>
       GLFW_KEY_COMMA GLFW_PRESS
       (initial_player\<lparr>audioPosition := 4096, loopEnabled := False\<rparr>)
     = initial_player\<lparr>audioPosition := 4096, loopEnabled := False, loopStart := 4096\<rparr>
   \<and> burn_keyCallback \<lparr>fileData = replicate 116480 128, totalFrames = 1\<rparr>
       GLFW_KEY_PERIOD GLFW_PRESS
       (burn_initial_player\<lparr>audioPosition := 4096, loopEnabled := False\<rparr>)
     = burn_initial_player\<lparr>audioPosition := 4096, loopEnabled := False, loopEnd := 4096\<rparr>
   \<and> burn_keyCallback \<lparr>fileData = replicate 116480 128, totalFrames = 1\<rparr>
       GLFW_KEY_PERIOD GLFW_PRESS (burn_initial_player\<lparr>audioPosition := 4096\<rparr>)
     = burn_initial_player\<lparr>audioPosition := 4096\<rparr>"
  using C10_loop_points_gated [of "initial_player\<lparr>audioPosition := 4096\<rparr>"
      "\<lparr>fileData = replicate 8192 128, totalFrames = 1\<rparr>" GLFW_PRESS
      "burn_initial_player\<lparr>audioPosition := 4096\<rparr>"]
    C10_loop_points_gated [of "initial_player\<lparr>audioPosition := 4096, loopEnabled := False\<rparr>"
      "\<lparr>fileData = replicate 8192 128, totalFrames = 1\<rparr>" GLFW_PRESS
      "burn_initial_player\<lparr>audioPosition := 4096, loopEnabled := False\<rparr>"]
    C10_loop_points_gated [of "initial_player\<lparr>audioPosition := 4096\<rparr>"
      "\<lparr>fileData = replicate 116480 128, totalFrames = 1\<rparr>" GLFW_PRESS
      "burn_initial_player\<lparr>audioPosition := 4096\<rparr>"]
    C10_loop_points_gated [of "initial_player\<lparr>audioPosition := 4096, loopEnabled := False\<rparr>"
      "\<lparr>fileData = replicate 116480 128, totalFrames = 1\<rparr>" GLFW_PRESS
      "burn_initial_player\<lparr>audioPosition := 4096, loopEnabled := False\<rparr>"]
  by (simp add: initial_player_def burn_initial_player_def)

section \<open>The palette\<close>

lemma colorIndex_less: "colorIndex v < 18"
  by (simp add: colorIndex_def)

lemma intensity_range: "0 < intensity v \<and> intensity v \<le> 1"
proof -
  have "unat v mod 14 < 14" by simp
  then have "real (unat v mod 14 + 1) \<le> 14" by linarith
  then show ?thesis by (simp add: intensity_def)
qed

lemma rainbow_channels:
  assumes "i < 18" and "rainbow ! i = (r, g, b)"
  shows "0 \<le> r \<and> r \<le> 1 \<and> 0 \<le> g \<and> g \<le> 1 \<and> 0 \<le> b \<and> b \<le> 1"
proof -
  have all: "\<forall>(r, g, b) \<in> set rainbow. 0 \<le> r \<and> r \<le> 1 \<and> 0 \<le> g \<and> g \<le> 1 \<and> 0 \<le> b \<and> b \<le> 1"
    by (simp add: rainbow_def)
  have "rainbow ! i \<in> set rainbow"
    using assms(1) by (intro nth_mem) (simp add: rainbow_def)
  then show ?thesis using all assms(2) by auto
qed

lemma scaled_channel:
  fixes x k :: real
  assumes "0 \<le> x" "x \<le> 1" "0 < k" "k \<le> 1"
  shows "0 \<le> x * k \<and> x * k \<le> 1"
  using assms by (simp add: mult_le_one)

text \<open>
  Claim C9. The colour of a pixel is a function of its byte alone: the hue is entry
  \<open>colorIndex = (byte / 14) mod 18\<close> of the 18-entry table (always a valid index), the intensity
  is \<open>((byte mod 14) + 1) / 14\<close>, and each channel is the hue's channel times the intensity, so
  every channel lies in \<open>[0, 1]\<close>. Byte 0 has \<open>colorIndex\<close> 0 and intensity \<open>1/14\<close>, byte 13 has
  \<open>colorIndex\<close> 0 and intensity 1, byte 14 has \<open>colorIndex\<close> 1 and intensity \<open>1/14\<close>; the bytes
  252 to 255 fall back on hue 0.
\<close>

theorem C9_pixel_color:
  "colorIndex v = (unat v div 14) mod 18
   \<and> length rainbow = 18 \<and> colorIndex v < length rainbow
   \<and> intensity v = real (unat v mod 14 + 1) / 14
   \<and> (case rainbow ! colorIndex v of
        (r, g, b) \<Rightarrow> pixel_color v = (r * intensity v, g * intensity v, b * intensity v))
   \<and> (case pixel_color v of
        (r, g, b) \<Rightarrow> 0 \<le> r \<and> r \<le> 1 \<and> 0 \<le> g \<and> g \<le> 1 \<and> 0 \<le> b \<and> b \<le> 1)
   \<and> colorIndex 0 = 0 \<and> intensity 0 = 1 / 14
   \<and> colorIndex 13 = 0 \<and> intensity 13 = 1
   \<and> colorIndex 14 = 1 \<and> intensity 14 = 1 / 14
   \<and> pixel_color 0 = (1 / 14, 0, 0) \<and> pixel_color 13 = (1, 0, 0)
   \<and> pixel_color 14 = (0, 1 / 14, 0) \<and> pixel_color 255 = (4 / 14, 0, 0)"
proof -
  obtain r g b where rgb: "rainbow ! colorIndex v = (r, g, b)"
    by (cases "rainbow ! colorIndex v") auto
  have ch: "0 \<le> r \<and> r \<le> 1 \<and> 0 \<le> g \<and> g \<le> 1 \<and> 0 \<le> b \<and> b \<le> 1"
    using rainbow_channels[OF colorIndex_less rgb] .
  have pc: "pixel_color v = (r * intensity v, g * intensity v, b * intensity v)"
    by (simp add: pixel_color_def rgb)
  have rng: "0 \<le> r * intensity v \<and> r * intensity v \<le> 1"
    "0 \<le> g * intensity v \<and> g * intensity v \<le> 1"
    "0 \<le> b * intensity v \<and> b * intensity v \<le> 1"
    using ch intensity_range[of v] by (simp_all add: scaled_channel)
  have ex: "colorIndex 0 = 0" "intensity 0 = 1 / 14" "colorIndex 13 = 0" "intensity 13 = 1"
    "colorIndex 14 = 1" "intensity 14 = 1 / 14"
    by (simp_all add: colorIndex_def intensity_def)
  have px: "pixel_color 0 = (1 / 14, 0, 0)" "pixel_color 13 = (1, 0, 0)"
    "pixel_color 14 = (0, 1 / 14, 0)" "pixel_color 255 = (4 / 14, 0, 0)"
    by (simp_all add: pixel_color_def colorIndex_def intensity_def rainbow_def)
  have len: "length rainbow = 18" by (simp add: rainbow_def)
  have c1: "colorIndex v = (unat v div 14) mod 18" by (simp add: colorIndex_def)
  have c3: "colorIndex v < length rainbow" using colorIndex_less[of v] by (simp add: len)
  have c4: "intensity v = real (unat v mod 14 + 1) / 14" by (simp add: intensity_def)
  have c5: "case rainbow ! colorIndex v of
        (r, g, b) \<Rightarrow> pixel_color v = (r * intensity v, g * intensity v, b * intensity v)"
    by (simp add: rgb pc)
  have c6: "case pixel_color v of
        (r, g, b) \<Rightarrow> 0 \<le> r \<and> r \<le> 1 \<and> 0 \<le> g \<and> g \<le> 1 \<and> 0 \<le> b \<and> b \<le> 1"
    using rng by (simp add: pc)
  show ?thesis
    using c1 len c3 c4 c5 c6 ex px by blast
qed

section \<open>Frame selection\<close>

lemma to_size_t_nonneg:
  assumes "0 \<le> x" "x < 2 ^ 64"
  shows "to_size_t x = Inr (nat \<lfloor>x\<rfloor>)"
  using assms by (simp add: to_size_t_def trunc_def)

lemma frame_quotient:
  fixes N bpf :: nat
  assumes "0 < bpf" "0 < N" "N < 2 ^ 64"
  shows "to_size_t (wrapPosition pos (real N) / real bpf)
           = Inr (nat \<lfloor>wrapPosition pos (real N) / real bpf\<rfloor>)"
    and "nat \<lfloor>wrapPosition pos (real N) / real bpf\<rfloor> \<le> N div bpf"
proof -
  let ?w = "wrapPosition pos (real N)"
  have w: "0 \<le> ?w \<and> ?w < real N"
    using wrapPosition_bounds[of "real N" pos] assms(2) by simp
  have b1: "1 \<le> real bpf" using assms(1) by simp
  have q0: "0 \<le> ?w / real bpf" using w assms(1) by simp
  have "?w / real bpf \<le> ?w" using w b1 by (simp add: divide_le_eq mult_le_cancel_left1)
  also have "\<dots> < real N" using w by simp
  also have "\<dots> < 2 ^ 64" using assms(3) by (metis of_nat_less_iff of_nat_numeral of_nat_power)
  finally have q1: "?w / real bpf < 2 ^ 64" .
  show "to_size_t (?w / real bpf) = Inr (nat \<lfloor>?w / real bpf\<rfloor>)"
    using to_size_t_nonneg[OF q0 q1] .
  have "?w / real bpf \<le> real N / real bpf"
    using w assms(1) by (simp add: divide_right_mono)
  then have "\<lfloor>?w / real bpf\<rfloor> \<le> \<lfloor>real N / real bpf\<rfloor>" by (rule floor_mono)
  also have "\<dots> = int (N div bpf)" by (simp add: floor_divide_of_nat_eq)
  finally show "nat \<lfloor>?w / real bpf\<rfloor> \<le> N div bpf" by simp
qed

lemma loadMediaFile_with_facts:
  assumes "loadMediaFile_with bpf f = Inr m"
  shows "0 < bpf \<and> 0 < length (fileData m) \<and> totalFrames m = length (fileData m) div bpf
    \<and> 0 < totalFrames m"
proof (cases f)
  case Missing
  then show ?thesis using assms by simp
next
  case (Contents bytes readable)
  then have m: "m = \<lparr>fileData = bytes, totalFrames = length bytes div bpf\<rparr>"
    and nz: "length bytes div bpf \<noteq> 0" and ne: "bytes \<noteq> []"
    using assms by (auto simp: Let_def split: if_splits)
  have "0 < bpf" using nz by (cases "bpf = 0") auto
  then show ?thesis using m nz ne by simp
qed

lemma frame_fits:
  fixes N bpf i :: nat
  assumes "i < N div bpf"
  shows "i * bpf + bpf \<le> N"
proof -
  have "Suc i \<le> N div bpf" using assms by simp
  then have "Suc i * bpf \<le> (N div bpf) * bpf" by (rule mult_le_mono1)
  also have "\<dots> \<le> N" by simp
  finally show ?thesis by (simp add: algebra_simps)
qed

text \<open>
  Claim C8, as the code has it. For a loaded file (so \<open>totalFrames = N div frameByteSize \<ge> 1\<close>)
  and every position, \<^verbatim>\<open>renderFrame\<close> of \<^verbatim>\<open>burn/OPENBinarywaterFALL.cpp\<close> and the title bar of
  \<^verbatim>\<open>OpenBinaryWaterFall.cpp\<close> use the frame index \<open>floor(wrap(position, N) / frameByteSize)\<close>
  clamped to \<open>totalFrames - 1\<close>, and the burn variant reads the frame at that index times
  \<open>frameByteSize\<close>. \<^verbatim>\<open>renderFrame\<close> of \<^verbatim>\<open>OpenBinaryWaterFall.cpp\<close> does not clamp: the tile in row
  \<open>r\<close> and column \<open>c\<close> shows frame \<open>(floor(wrap(position, N) / frameByteSize) + r * columns + c)
  mod totalFrames\<close>. In both files the frame read lies inside the file.
\<close>

theorem C8_frame_index:
  assumes "burn_loadMediaFile f = Inr mb" and "length (fileData mb) < 2 ^ 64"
    and "loadMediaFile g = Inr m" and "length (fileData m) < 2 ^ 64"
  shows "burn_frameIndex mb pos =
       Inr (min (nat \<lfloor>wrapPosition pos (real (length (fileData mb)))
                      / real (burn_FRAME_WIDTH * burn_FRAME_HEIGHT)\<rfloor>)
                (totalFrames mb - 1))
   \<and> burn_frameOffset mb pos =
       Inr (min (nat \<lfloor>wrapPosition pos (real (length (fileData mb)))
                      / real (burn_FRAME_WIDTH * burn_FRAME_HEIGHT)\<rfloor>)
                (totalFrames mb - 1) * (burn_FRAME_WIDTH * burn_FRAME_HEIGHT))
   \<and> min (nat \<lfloor>wrapPosition pos (real (length (fileData mb)))
                  / real (burn_FRAME_WIDTH * burn_FRAME_HEIGHT)\<rfloor>)
          (totalFrames mb - 1) * (burn_FRAME_WIDTH * burn_FRAME_HEIGHT)
        + burn_FRAME_WIDTH * burn_FRAME_HEIGHT \<le> length (fileData mb)
   \<and> currentFrame m pos =
       Inr (min (nat \<lfloor>wrapPosition pos (real (length (fileData m)))
                      / real (FRAME_WIDTH * FRAME_HEIGHT)\<rfloor>)
                (totalFrames m - 1))
   \<and> frameIndex m pos columns r c =
       Inr ((nat \<lfloor>wrapPosition pos (real (length (fileData m)))
                   / real (FRAME_WIDTH * FRAME_HEIGHT)\<rfloor> + r * columns + c) mod totalFrames m)
   \<and> frameOffset m pos columns r c =
       Inr ((nat \<lfloor>wrapPosition pos (real (length (fileData m)))
                   / real (FRAME_WIDTH * FRAME_HEIGHT)\<rfloor> + r * columns + c) mod totalFrames m
            * FRAME_WIDTH * FRAME_HEIGHT)
   \<and> (nat \<lfloor>wrapPosition pos (real (length (fileData m)))
                   / real (FRAME_WIDTH * FRAME_HEIGHT)\<rfloor> + r * columns + c) mod totalFrames m
        * FRAME_WIDTH * FRAME_HEIGHT + FRAME_WIDTH * FRAME_HEIGHT \<le> length (fileData m)"
proof -
  let ?bb = "burn_FRAME_WIDTH * burn_FRAME_HEIGHT"
  let ?qb = "nat \<lfloor>wrapPosition pos (real (length (fileData mb))) / real ?bb\<rfloor>"
  let ?bm = "FRAME_WIDTH * FRAME_HEIGHT"
  let ?qm = "nat \<lfloor>wrapPosition pos (real (length (fileData m))) / real ?bm\<rfloor>"
  have fb: "0 < ?bb \<and> 0 < length (fileData mb) \<and> totalFrames mb = length (fileData mb) div ?bb
      \<and> 0 < totalFrames mb"
    using loadMediaFile_with_facts[of ?bb f mb] assms(1) by (simp add: burn_loadMediaFile_def)
  have fm: "0 < ?bm \<and> 0 < length (fileData m) \<and> totalFrames m = length (fileData m) div ?bm
      \<and> 0 < totalFrames m"
    using loadMediaFile_with_facts[of ?bm g m] assms(3) by (simp add: loadMediaFile_def)
  have cb: "to_size_t (wrapPosition pos (real (length (fileData mb))) / real ?bb) = Inr ?qb"
    using frame_quotient(1)[of ?bb "length (fileData mb)" pos] fb assms(2) by simp
  have cm: "to_size_t (wrapPosition pos (real (length (fileData m))) / real ?bm) = Inr ?qm"
    using frame_quotient(1)[of ?bm "length (fileData m)" pos] fm assms(4) by simp
  have clamp_b: "(if ?qb \<ge> totalFrames mb then size_t_pred (totalFrames mb) else ?qb)
      = min ?qb (totalFrames mb - 1)"
    using fb by (auto simp: size_t_pred_def min_def)
  have clamp_m: "(if ?qm \<ge> totalFrames m then size_t_pred (totalFrames m) else ?qm)
      = min ?qm (totalFrames m - 1)"
    using fm by (auto simp: size_t_pred_def min_def)
  have b1: "burn_frameIndex mb pos = Inr (min ?qb (totalFrames mb - 1))"
    by (simp only: burn_frameIndex_def Let_def cb sum.case clamp_b)
  have b2: "burn_frameOffset mb pos = Inr (min ?qb (totalFrames mb - 1) * ?bb)"
    unfolding burn_frameOffset_def b1 by simp
  have "min ?qb (totalFrames mb - 1) \<le> totalFrames mb - 1" by (rule min.cobounded2)
  then have "min ?qb (totalFrames mb - 1) < totalFrames mb" using fb by linarith
  then have "min ?qb (totalFrames mb - 1) < length (fileData mb) div ?bb"
    using fb by (simp only:)
  then have b3: "min ?qb (totalFrames mb - 1) * ?bb + ?bb \<le> length (fileData mb)"
    by (rule frame_fits)
  have m0: "currentFrame m pos = Inr (min ?qm (totalFrames m - 1))"
    by (simp only: currentFrame_def Let_def cm sum.case clamp_m)
  have m1: "frameIndex m pos columns r c = Inr ((?qm + r * columns + c) mod totalFrames m)"
    using fm by (simp only: frameIndex_def startFrame_def cm sum.case) simp
  have m2: "frameOffset m pos columns r c
      = Inr ((?qm + r * columns + c) mod totalFrames m * FRAME_WIDTH * FRAME_HEIGHT)"
    unfolding frameOffset_def m1 by simp
  have "(?qm + r * columns + c) mod totalFrames m < totalFrames m"
    using fm by (intro mod_less_divisor) blast
  then have "(?qm + r * columns + c) mod totalFrames m < length (fileData m) div ?bm"
    using fm by (simp only:)
  then have "(?qm + r * columns + c) mod totalFrames m * ?bm + ?bm \<le> length (fileData m)"
    by (rule frame_fits)
  then have m3: "(?qm + r * columns + c) mod totalFrames m * FRAME_WIDTH * FRAME_HEIGHT
      + FRAME_WIDTH * FRAME_HEIGHT \<le> length (fileData m)"
    by (simp add: mult.assoc)
  show ?thesis using b1 b2 b3 m0 m1 m2 m3 by blast
qed

text \<open>
  Claim C8 as stated fails for \<^verbatim>\<open>renderFrame\<close> of \<^verbatim>\<open>OpenBinaryWaterFall.cpp\<close>: a file of
  16385 bytes has two whole frames of 8192 bytes and one trailing byte; at position 16384 the
  quotient is 2, which the claim clamps to frame 1, while the first tile shows frame
  \<open>2 mod 2 = 0\<close>.
\<close>

theorem C8_frame_index_counterexample:
  "loadMediaFile (Contents (replicate 16385 0) True)
     = Inr \<lparr>fileData = replicate 16385 0, totalFrames = 2\<rparr>
   \<and> nat \<lfloor>wrapPosition 16384 (real (length (replicate 16385 (0::byte))))
            / real (FRAME_WIDTH * FRAME_HEIGHT)\<rfloor> = 2
   \<and> frameIndex \<lparr>fileData = replicate 16385 0, totalFrames = 2\<rparr> 16384 1 0 0 = Inr 0
   \<and> frameOffset \<lparr>fileData = replicate 16385 0, totalFrames = 2\<rparr> 16384 1 0 0 = Inr 0
   \<and> frameIndex \<lparr>fileData = replicate 16385 0, totalFrames = 2\<rparr> 16384 1 0 0
      \<noteq> Inr (min (nat \<lfloor>wrapPosition 16384 (real (length (replicate 16385 (0::byte))))
                        / real (FRAME_WIDTH * FRAME_HEIGHT)\<rfloor>)
                (totalFrames \<lparr>fileData = replicate 16385 (0::byte), totalFrames = 2\<rparr> - 1))"
  by (simp add: loadMediaFile_def FRAME_WIDTH_def FRAME_HEIGHT_def frameIndex_def
      frameOffset_def startFrame_def wrapPosition_def to_size_t_def trunc_def)

text \<open>The theorem at a burn file of 300000 bytes (two frames of 116480 bytes and a partial
  one) and a main file of 16385 bytes, at positions inside the trailing partial frame.\<close>

theorem C8_frame_index_witness:
  "burn_loadMediaFile (Contents (replicate 300000 7) True)
     = Inr \<lparr>fileData = replicate 300000 7, totalFrames = 2\<rparr>
   \<and> loadMediaFile (Contents (replicate 16385 0) True)
     = Inr \<lparr>fileData = replicate 16385 0, totalFrames = 2\<rparr>
   \<and> burn_frameIndex \<lparr>fileData = replicate 300000 7, totalFrames = 2\<rparr> 250000 = Inr 1
   \<and> burn_frameOffset \<lparr>fileData = replicate 300000 7, totalFrames = 2\<rparr> 250000 = Inr 116480
   \<and> currentFrame \<lparr>fileData = replicate 16385 0, totalFrames = 2\<rparr> 16384 = Inr 1
   \<and> frameIndex \<lparr>fileData = replicate 16385 0, totalFrames = 2\<rparr> 16384 3 1 1 = Inr 0
   \<and> frameOffset \<lparr>fileData = replicate 16385 0, totalFrames = 2\<rparr> 16384 3 1 1 = Inr 0"
proof -
  have lb: "burn_loadMediaFile (Contents (replicate 300000 7) True)
     = Inr \<lparr>fileData = replicate 300000 7, totalFrames = 2\<rparr>"
    by (simp add: burn_loadMediaFile_def burn_FRAME_WIDTH_def burn_FRAME_HEIGHT_def)
  have lm: "loadMediaFile (Contents (replicate 16385 0) True)
     = Inr \<lparr>fileData = replicate 16385 0, totalFrames = 2\<rparr>"
    by (simp add: loadMediaFile_def FRAME_WIDTH_def FRAME_HEIGHT_def)
  have sb: "length (fileData \<lparr>fileData = replicate 300000 (7::byte), totalFrames = 2\<rparr>) < 2 ^ 64"
    by simp
  have sm: "length (fileData \<lparr>fileData = replicate 16385 (0::byte), totalFrames = 2\<rparr>) < 2 ^ 64"
    by simp
  have qb: "nat \<lfloor>wrapPosition 250000 300000 / real (burn_FRAME_WIDTH * burn_FRAME_HEIGHT)\<rfloor> = 2"
    by (simp add: wrapPosition_def burn_FRAME_WIDTH_def burn_FRAME_HEIGHT_def)
  have qm: "nat \<lfloor>wrapPosition 16384 16385 / real (FRAME_WIDTH * FRAME_HEIGHT)\<rfloor> = 2"
    by (simp add: wrapPosition_def FRAME_WIDTH_def FRAME_HEIGHT_def)
  show ?thesis
    using lb lm C8_frame_index[OF lb sb lm sm, of 250000 3 1 1]
      C8_frame_index[OF lb sb lm sm, of 16384 3 1 1] qb qm
    by (simp add: burn_FRAME_WIDTH_def burn_FRAME_HEIGHT_def FRAME_WIDTH_def FRAME_HEIGHT_def)
qed

section \<open>The audio callback\<close>

text \<open>The definitions that the evaluation of a concrete run unfolds.\<close>

lemmas eval_defs =
  keyCallback_def burn_keyCallback_def jackProcessCallback_def burn_jackProcessCallback_def
  sample_step_def burn_sample_step_def advance_position_def burn_advance_position_def
  handleLoop_def burn_handleLoop_def wrapPosition_def fmod_def trunc_def to_size_t_def
  vector_read_def sample_of_def initial_player_def burn_initial_player_def
  FRAME_WIDTH_def FRAME_HEIGHT_def BASE_FRAME_RATE_def burn_FRAME_WIDTH_def
  burn_FRAME_HEIGHT_def DEFAULT_FREQUENCY_def calculateLogAdjustment_def burn_page_up_def
  burn_page_down_def loadMediaFile_def burn_loadMediaFile_def toggleFullscreen_def Let_def






text \<open>
  Claim C1 says that after every advance step the resolved position lies in \<open>[0, N)\<close>. The
  code at two reachable states of \<^verbatim>\<open>OpenBinaryWaterFall.cpp\<close> with a 40-frame file (so that the
  start-up loop \<open>[0, 278528]\<close> lies inside the file) and a 48000 Hz sample rate: after the Left
  key at start-up the position is \<open>-8192\<close>, and the step leaves it at \<open>-8187.904\<close>, since a
  forward step resolves nothing below \<open>loopEnd\<close>; and with the loop end set one sample after
  the start (4.096), boomerang mode on and the multiplier raised once to 1.5, the step from
  \<open>4.096\<close> reflects \<open>10.24\<close> about the loop end to \<open>-2.048\<close>. The burn variant after the Left
  key on a 40-frame file ends at \<open>-115896.67\<close>.
\<close>

theorem C1_position_leaves_buffer:
  "loadMediaFile (Contents (replicate 327680 128) True)
     = Inr \<lparr>fileData = replicate 327680 128, totalFrames = 40\<rparr>
   \<and> keyCallback m GLFW_KEY_LEFT GLFW_PRESS initial_player
     = initial_player\<lparr>audioPosition := - 8192\<rparr>
   \<and> real (FRAME_WIDTH * FRAME_HEIGHT) * real BASE_FRAME_RATE / real 48000
       * playbackMultiplier initial_player = 512 / 125
   \<and> loopEnd initial_player < 327680
   \<and> advance_position 327680 (512 / 125) (initial_player\<lparr>audioPosition := - 8192\<rparr>)
     = initial_player\<lparr>audioPosition := - (1023488 / 125)\<rparr>
   \<and> jackProcessCallback (replicate 327680 128) 48000 1
       (keyCallback m GLFW_KEY_L GLFW_PRESS initial_player)
     = Inr ([(0, 0)], initial_player\<lparr>loopEnabled := False, audioPosition := 512 / 125\<rparr>)
   \<and> keyCallback m GLFW_KEY_PAGE_UP GLFW_PRESS
       (keyCallback m GLFW_KEY_B GLFW_PRESS
         (keyCallback m GLFW_KEY_L GLFW_PRESS
           (keyCallback m GLFW_KEY_PERIOD GLFW_PRESS
             (initial_player\<lparr>loopEnabled := False, audioPosition := 512 / 125\<rparr>))))
     = initial_player\<lparr>audioPosition := 512 / 125, loopEnd := 512 / 125,
         boomerangMode := True, playbackMultiplier := 3 / 2\<rparr>
   \<and> real (FRAME_WIDTH * FRAME_HEIGHT) * real BASE_FRAME_RATE / real 48000 * (3 / 2) = 768 / 125
   \<and> advance_position 327680 (768 / 125)
       (initial_player\<lparr>audioPosition := 512 / 125, loopEnd := 512 / 125,
          boomerangMode := True, playbackMultiplier := 3 / 2\<rparr>)
     = initial_player\<lparr>audioPosition := - (256 / 125), loopEnd := 512 / 125,
         boomerangMode := True, playbackMultiplier := - (3 / 2)\<rparr>
   \<and> burn_loadMediaFile (Contents (replicate 4659200 128) True)
     = Inr \<lparr>fileData = replicate 4659200 128, totalFrames = 40\<rparr>
   \<and> loopEnd burn_initial_player < 4659200
   \<and> burn_advance_position 4659200
       (real_of_int (playbackFrequency burn_initial_player) / real_of_int DEFAULT_FREQUENCY)
       (burn_keyCallback m GLFW_KEY_LEFT GLFW_PRESS burn_initial_player)
     = burn_initial_player\<lparr>audioPosition := - (347690 / 3)\<rparr>"
  by (simp add: eval_defs)

text \<open>The two runs of \<^verbatim>\<open>OpenBinaryWaterFall.cpp\<close> above on a concrete 40-frame file: the
  player is neither paused nor muted and the buffer is not empty, so the callback advances,
  and both resolved positions are negative.\<close>

theorem C1_position_leaves_buffer_witness:
  "\<not> isPaused initial_player \<and> isAudioEnabled initial_player
   \<and> replicate 327680 (128::byte) \<noteq> []
   \<and> audioPosition (advance_position 327680 (512 / 125)
        (keyCallback \<lparr>fileData = replicate 327680 128, totalFrames = 40\<rparr>
           GLFW_KEY_LEFT GLFW_PRESS initial_player)) < 0
   \<and> audioPosition (advance_position 327680 (768 / 125)
        (keyCallback \<lparr>fileData = replicate 327680 128, totalFrames = 40\<rparr>
           GLFW_KEY_PAGE_UP GLFW_PRESS
          (keyCallback \<lparr>fileData = replicate 327680 128, totalFrames = 40\<rparr>
             GLFW_KEY_B GLFW_PRESS
            (keyCallback \<lparr>fileData = replicate 327680 128, totalFrames = 40\<rparr>
               GLFW_KEY_L GLFW_PRESS
              (keyCallback \<lparr>fileData = replicate 327680 128, totalFrames = 40\<rparr>
                 GLFW_KEY_PERIOD GLFW_PRESS
                (initial_player\<lparr>loopEnabled := False, audioPosition := 512 / 125\<rparr>)))))) < 0"
  using C1_position_leaves_buffer [of "\<lparr>fileData = replicate 327680 128, totalFrames = 40\<rparr>"]
  by (simp add: initial_player_def)

text \<open>Where the invariant of claim C1 does hold, in exact arithmetic: with boomerang mode
  off, loop bounds in \<open>[0, N)\<close> and a position in \<open>[0, N)\<close> before the step, the resolved
  position is in \<open>[0, N)\<close>, in both files. In binary64 arithmetic the wrap can return \<open>N\<close>
  itself, as shown above.\<close>

lemma handleLoop_in_range:
  assumes "0 < N" "\<not> boomerangMode s" "0 \<le> loopStart s" "loopStart s < N"
    "0 \<le> loopEnd s" "loopEnd s < N" "0 \<le> p" "p < N"
  shows "0 \<le> audioPosition (handleLoop N adv (s\<lparr>audioPosition := p + adv\<rparr>))
    \<and> audioPosition (handleLoop N adv (s\<lparr>audioPosition := p + adv\<rparr>)) < N"
  using assms wrapPosition_bounds[OF assms(1), of "p + adv"]
  by (auto simp: handleLoop_def Let_def)

lemma burn_handleLoop_in_range:
  assumes "0 < N" "\<not> boomerangMode s" "0 \<le> loopStart s" "loopStart s < N"
    "0 \<le> loopEnd s" "loopEnd s < N" "0 \<le> p" "p < N"
  shows "0 \<le> audioPosition (burn_handleLoop N adv (s\<lparr>audioPosition := p + adv\<rparr>))
    \<and> audioPosition (burn_handleLoop N adv (s\<lparr>audioPosition := p + adv\<rparr>)) < N"
  using assms wrapPosition_bounds[OF assms(1), of "p + adv"]
  by (auto simp: burn_handleLoop_def Let_def)

lemma advance_position_in_range_without_boomerang:
  assumes "0 < N" and "\<not> boomerangMode s" and "\<not> boomerangMode b"
    and "0 \<le> loopStart s \<and> loopStart s < N \<and> 0 \<le> loopEnd s \<and> loopEnd s < N"
    and "0 \<le> audioPosition s \<and> audioPosition s < N"
    and "0 \<le> loopStart b \<and> loopStart b < N \<and> 0 \<le> loopEnd b \<and> loopEnd b < N"
    and "0 \<le> audioPosition b \<and> audioPosition b < N"
  shows "0 \<le> audioPosition (advance_position N adv s)
    \<and> audioPosition (advance_position N adv s) < N
    \<and> 0 \<le> audioPosition (burn_advance_position N adv b)
    \<and> audioPosition (burn_advance_position N adv b) < N"
  using assms handleLoop_in_range[of N s "audioPosition s" adv]
    burn_handleLoop_in_range[of N b "audioPosition b" adv]
  by (simp add: advance_position_def burn_advance_position_def)

text \<open>The index clamp of \<^verbatim>\<open>OpenBinaryWaterFall.cpp\<close> keeps every read of its callback inside
  the buffer.\<close>

lemma sample_step_in_bounds:
  assumes "fd \<noteq> []"
  shows "sample_step fd adv s \<noteq> Inl OutOfBounds"
  using assms
  by (auto simp: sample_step_def Let_def vector_read_def to_size_t_def split: sum.splits if_splits)

lemma sample_loop_in_bounds:
  assumes "fd \<noteq> []"
  shows "sample_loop fd adv n s \<noteq> Inl OutOfBounds"
proof (induction n arbitrary: s)
  case 0
  then show ?case by simp
next
  case (Suc n)
  show ?case
    using sample_step_in_bounds[OF assms, of adv s] Suc.IH
    by (auto split: sum.splits)
qed

lemma jackProcessCallback_in_bounds:
  "jackProcessCallback fd sampleRate nframes s \<noteq> Inl OutOfBounds"
proof (cases "fd = []")
  case True
  then show ?thesis by (simp add: jackProcessCallback_def)
next
  case False
  then show ?thesis
    using sample_loop_in_bounds[OF False] by (simp add: jackProcessCallback_def Let_def)
qed

text \<open>Unrolling the per-sample loop at a numeral.\<close>

lemma sample_loop_numeral:
  "sample_loop fd adv (numeral k) s =
     (case sample_step fd adv s of
        Inl e \<Rightarrow> Inl e
      | Inr (sample, s1) \<Rightarrow>
          (case sample_loop fd adv (pred_numeral k) s1 of
             Inl e \<Rightarrow> Inl e
           | Inr (out, s2) \<Rightarrow> Inr ((sample, sample) # out, s2)))"
  by (simp add: numeral_eq_Suc)

lemma burn_sample_loop_numeral:
  "burn_sample_loop fd adv (numeral k) s =
     (case burn_sample_step fd adv s of
        Inl e \<Rightarrow> Inl e
      | Inr (sample, s1) \<Rightarrow>
          (case burn_sample_loop fd adv (pred_numeral k) s1 of
             Inl e \<Rightarrow> Inl e
           | Inr (out, s2) \<Rightarrow> Inr ((sample, sample) # out, s2)))"
  by (simp add: numeral_eq_Suc)

text \<open>
  Claim C2 says that no advance and synthesize step reads the buffer outside \<open>[0, N - 1]\<close>.
  \<^verbatim>\<open>burn/OPENBinarywaterFALL.cpp\<close> on a file of exactly one frame (116480 bytes): the start-up
  loop ends at byte 3960320, beyond the file; after Page Up twice the rate is 1000000 / 24
  bytes per sample, two samples are read at 41666 and 83333, and the third sample converts
  the position \<open>125000\<close> to the index 125000 and reads past the end, the callback having no
  index clamp. After the Left key at start-up (40-frame files) the resolved position is
  negative in both files and its conversion to an index is undefined.
\<close>

theorem C2_read_past_end:
  "burn_loadMediaFile (Contents (replicate 116480 128) True)
     = Inr \<lparr>fileData = replicate 116480 128, totalFrames = 1\<rparr>
   \<and> burn_keyCallback m GLFW_KEY_PAGE_UP GLFW_PRESS
       (burn_keyCallback m GLFW_KEY_PAGE_UP GLFW_PRESS burn_initial_player)
     = burn_initial_player\<lparr>playbackFrequency := 1000000\<rparr>
   \<and> burn_jackProcessCallback (replicate 116480 128) 2
       (burn_initial_player\<lparr>playbackFrequency := 1000000\<rparr>)
     = Inr ([(0, 0), (0, 0)],
            burn_initial_player\<lparr>playbackFrequency := 1000000, audioPosition := 250000 / 3\<rparr>)
   \<and> burn_jackProcessCallback (replicate 116480 128) 3
       (burn_initial_player\<lparr>playbackFrequency := 1000000\<rparr>)
     = Inl OutOfBounds
   \<and> burn_sample_step (replicate 116480 128) (125000 / 3)
       (burn_initial_player\<lparr>playbackFrequency := 1000000, audioPosition := 250000 / 3\<rparr>)
     = Inl OutOfBounds
   \<and> to_size_t (audioPosition (burn_advance_position 116480 (125000 / 3)
       (burn_initial_player\<lparr>playbackFrequency := 1000000, audioPosition := 250000 / 3\<rparr>)))
     = Inr 125000
   \<and> burn_jackProcessCallback (replicate 4659200 128) 1
       (burn_keyCallback m GLFW_KEY_LEFT GLFW_PRESS burn_initial_player)
     = Inl UndefinedConversion
   \<and> jackProcessCallback (replicate 327680 128) 48000 1
       (keyCallback m GLFW_KEY_LEFT GLFW_PRESS initial_player)
     = Inl UndefinedConversion"
  by (simp add: eval_defs burn_sample_loop_numeral)

text \<open>The run on a concrete one-frame file: the player is neither paused nor muted and the
  buffer is not empty, so the callback advances; two frames are served and the third read is
  past the end.\<close>

theorem C2_read_past_end_witness:
  "\<not> isPaused burn_initial_player \<and> isAudioEnabled burn_initial_player
   \<and> replicate 116480 (128::byte) \<noteq> []
   \<and> burn_jackProcessCallback (replicate 116480 128) 2
       (burn_keyCallback \<lparr>fileData = replicate 116480 128, totalFrames = 1\<rparr>
          GLFW_KEY_PAGE_UP GLFW_PRESS
         (burn_keyCallback \<lparr>fileData = replicate 116480 128, totalFrames = 1\<rparr>
            GLFW_KEY_PAGE_UP GLFW_PRESS burn_initial_player))
     = Inr ([(0, 0), (0, 0)],
            burn_initial_player\<lparr>playbackFrequency := 1000000, audioPosition := 250000 / 3\<rparr>)
   \<and> burn_jackProcessCallback (replicate 116480 128) 3
       (burn_keyCallback \<lparr>fileData = replicate 116480 128, totalFrames = 1\<rparr>
          GLFW_KEY_PAGE_UP GLFW_PRESS
         (burn_keyCallback \<lparr>fileData = replicate 116480 128, totalFrames = 1\<rparr>
            GLFW_KEY_PAGE_UP GLFW_PRESS burn_initial_player))
     = Inl OutOfBounds"
  using C2_read_past_end [of "\<lparr>fileData = replicate 116480 128, totalFrames = 1\<rparr>"]
  by (simp add: burn_initial_player_def)

text \<open>The same read past the end with both loop bounds inside a one-frame file: the loop
  \<open>[115313.33, 115896.67]\<close> is set with the comma and period keys while playing, and a reverse
  boomerang step at frequency \<open>-100000\<close> reflects \<open>111730\<close> about the loop start to
  \<open>118896.67\<close>, beyond \<open>N = 116480\<close>.\<close>

lemma burn_read_past_end_with_loop_inside_file:
  "burn_jackProcessCallback (replicate 116480 128) 2
       (burn_keyCallback m GLFW_KEY_MINUS GLFW_PRESS
         (burn_keyCallback m GLFW_KEY_L GLFW_PRESS burn_initial_player))
     = Inr ([(0, 0), (0, 0)],
            burn_initial_player\<lparr>loopEnabled := False, playbackFrequency := - 14000,
              audioPosition := 345940 / 3\<rparr>)
   \<and> burn_jackProcessCallback (replicate 116480 128) 1
       (burn_keyCallback m GLFW_KEY_EQUAL GLFW_PRESS
         (burn_keyCallback m GLFW_KEY_COMMA GLFW_PRESS
           (burn_initial_player\<lparr>loopEnabled := False, playbackFrequency := - 14000,
              audioPosition := 345940 / 3\<rparr>)))
     = Inr ([(0, 0)],
            burn_initial_player\<lparr>loopEnabled := False, loopStart := 345940 / 3,
              audioPosition := 347690 / 3\<rparr>)
   \<and> burn_keyCallback m GLFW_KEY_PAGE_UP GLFW_PRESS
       (burn_keyCallback m GLFW_KEY_MINUS GLFW_PRESS
         (burn_keyCallback m GLFW_KEY_B GLFW_PRESS
           (burn_keyCallback m GLFW_KEY_L GLFW_PRESS
             (burn_keyCallback m GLFW_KEY_PERIOD GLFW_PRESS
               (burn_initial_player\<lparr>loopEnabled := False, loopStart := 345940 / 3,
                  audioPosition := 347690 / 3\<rparr>)))))
     = burn_initial_player\<lparr>boomerangMode := True, loopStart := 345940 / 3,
         loopEnd := 347690 / 3, audioPosition := 347690 / 3, playbackFrequency := - 100000\<rparr>
   \<and> burn_jackProcessCallback (replicate 116480 128) 1
       (burn_initial_player\<lparr>boomerangMode := True, loopStart := 345940 / 3,
         loopEnd := 347690 / 3, audioPosition := 347690 / 3, playbackFrequency := - 100000\<rparr>)
     = Inl OutOfBounds
   \<and> audioPosition (burn_advance_position 116480 (- (12500 / 3))
       (burn_initial_player\<lparr>boomerangMode := True, loopStart := 345940 / 3,
         loopEnd := 347690 / 3, audioPosition := 347690 / 3, playbackFrequency := - 100000\<rparr>))
     = 356690 / 3"
  by (simp add: eval_defs burn_sample_loop_numeral)

text \<open>With no key pressed at all, a first callback of 200 frames on a one-frame file reads
  past the end: at 14000 / 24 bytes per sample the 200th position is 116666.67.\<close>

lemma burn_first_callback_reads_past_end:
  "burn_jackProcessCallback (replicate 116480 128) 200 burn_initial_player = Inl OutOfBounds"
  by (simp add: eval_defs burn_sample_loop_numeral)

text \<open>A fault ends the callback, so it is reached with any larger number of frames: every
  first callback of 200 frames or more on a one-frame file reads past the end, and so does
  every callback of three frames or more after Page Up twice.\<close>

lemma burn_sample_loop_fault_persists:
  assumes "burn_sample_loop fd adv n s = Inl e"
  shows "burn_sample_loop fd adv (n + k) s = Inl e"
  using assms
proof (induction n arbitrary: s)
  case 0
  then show ?case by simp
next
  case (Suc n)
  show ?case
  proof (cases "burn_sample_step fd adv s")
    case (Inl e')
    then show ?thesis using Suc.prems by simp
  next
    case (Inr r)
    obtain x s1 where r: "r = (x, s1)" by (cases r)
    have "burn_sample_loop fd adv n s1 = Inl e"
      using Suc.prems Inr r by (simp split: sum.splits prod.splits)
    then have "burn_sample_loop fd adv (n + k) s1 = Inl e" by (rule Suc.IH)
    then show ?thesis using Inr r by simp
  qed
qed

lemma burn_callback_reads_past_end_from_start_up:
  assumes "200 \<le> nframes"
  shows "burn_jackProcessCallback (replicate 116480 128) nframes burn_initial_player
    = Inl OutOfBounds"
proof -
  have run: "burn_sample_loop (replicate 116480 128)
      (real_of_int (playbackFrequency burn_initial_player) / real_of_int DEFAULT_FREQUENCY)
      200 burn_initial_player = Inl OutOfBounds"
    using burn_first_callback_reads_past_end
    by (simp add: burn_jackProcessCallback_def Let_def burn_initial_player_def)
  have "nframes = 200 + (nframes - 200)" using assms by simp
  then have "burn_sample_loop (replicate 116480 128)
      (real_of_int (playbackFrequency burn_initial_player) / real_of_int DEFAULT_FREQUENCY)
      nframes burn_initial_player = Inl OutOfBounds"
    using burn_sample_loop_fault_persists[OF run, of "nframes - 200"] by simp
  then show ?thesis
    by (simp add: burn_jackProcessCallback_def Let_def burn_initial_player_def)
qed

lemma burn_callback_reads_past_end_after_page_up:
  assumes "3 \<le> nframes"
  shows "burn_jackProcessCallback (replicate 116480 128) nframes
      (burn_initial_player\<lparr>playbackFrequency := 1000000\<rparr>)
    = Inl OutOfBounds"
proof -
  have run: "burn_sample_loop (replicate 116480 128)
      (real_of_int (playbackFrequency (burn_initial_player\<lparr>playbackFrequency := 1000000\<rparr>))
         / real_of_int DEFAULT_FREQUENCY)
      3 (burn_initial_player\<lparr>playbackFrequency := 1000000\<rparr>) = Inl OutOfBounds"
    by (simp add: eval_defs burn_sample_loop_numeral)
  have "nframes = 3 + (nframes - 3)" using assms by simp
  then have "burn_sample_loop (replicate 116480 128)
      (real_of_int (playbackFrequency (burn_initial_player\<lparr>playbackFrequency := 1000000\<rparr>))
         / real_of_int DEFAULT_FREQUENCY)
      nframes (burn_initial_player\<lparr>playbackFrequency := 1000000\<rparr>) = Inl OutOfBounds"
    using burn_sample_loop_fault_persists[OF run, of "nframes - 3"] by simp
  then show ?thesis
    by (simp add: burn_jackProcessCallback_def Let_def burn_initial_player_def)
qed

end
